theory Spec2Isabelle
  imports Main "HOL-Library.Word"
begin

section \<open>JavaScript values and strings\<close>

text \<open>
  A JavaScript string is modelled by the list of its code units, for strings whose code
  units are single bytes (U+0000 to U+00FF), so that \<open>length\<close> is the source's
  \<open>.length\<close> and \<open>hd\<close> its \<open>[0]\<close>. A Buffer or Uint8Array is a list of bytes.

  Every \<open>throw\<close> of the sources and of the platform under them is a value of
  \<open>js_error\<close>. An \<open>Error\<close> that the sources construct carries the values its
  message is built from. \<open>FetchRejected\<close> is a rejected fetch promise (network failure,
  or the abort at the timeout), \<open>InvalidURL\<close> the TypeError of the URL constructor,
  \<open>JsonSyntaxError\<close> the rejection of \<open>response.json()\<close>, \<open>FileSystemError\<close> a
  failing file read or JSON.parse of a file, \<open>LibraryError\<close> an error thrown by the
  signing library, and \<open>TypeError\<close> the error of the language itself, with its message.
\<close>

type_synonym byte = "8 word"
type_synonym bytes = "byte list"

datatype js_error =
    InvalidChallenge
  | UnsupportedKeyLength nat
  | KeyMaterialNotFound
  | PathNotAllowed string
  | BaseUrlNotDetected
  | UnknownOperation string
  | HttpError nat string string
  | FetchRejected string
  | InvalidURL string
  | JsonSyntaxError
  | FileSystemError string
  | LibraryError string
  | TypeError string

text \<open>
  A number is NaN, an infinity with its sign, or a decimal: a sign, a coefficient \<open>s\<close>
  and an exponent \<open>e\<close> for the value \<open>s * 10^e\<close>. For a double these are the digits
  and the exponent of the shortest decimal that reads back to it, which is the decimal
  that \<open>Number::toString\<close> prints; a zero of either sign has the coefficient 0. So 1
  is \<open>Decimal False 1 0\<close>, -1.5 is \<open>Decimal True 15 (-1)\<close> and 1e21 is
  \<open>Decimal False 1 21\<close>.
  \<open>number_to_string\<close> is \<open>Number::toString\<close> for the radix 10: with \<open>k\<close> the
  number of digits and \<open>n\<close> the position of the decimal point, plain digits when
  \<open>k \<le> n \<le> 21\<close>, a decimal point inside when \<open>0 < n \<le> 21\<close>, leading zeros
  when \<open>-6 < n \<le> 0\<close>, and the exponent form otherwise.

  The values are undefined, null, the booleans, numbers and strings, arrays, ordinary
  objects (the list of their own enumerable properties; they inherit from
  \<open>Object.prototype\<close>) and, as \<open>JOther\<close>, any other object that is neither an array
  nor callable (an instance of a class, a Date, an object without prototype), known by
  what the conversion to a string does with it: the string it gives or the error it
  throws. Symbols, BigInts and functions are not among the values.

  \<open>jsToString\<close> is \<open>String(value)\<close>. An array is converted by
  \<open>Array.prototype.join\<close>: the conversions of its elements, from left to right, with
  the empty string for undefined and null. An ordinary object is converted by the
  inherited \<open>toString\<close>, which gives \<open>[object Object]\<close>, unless it has an own
  property of that name: no value is callable, so the conversion then turns to
  \<open>valueOf\<close>, which is not callable either or gives the object back, and throws a
  TypeError.
\<close>

datatype js_number = NaN | Infinity bool | Decimal bool nat int

datatype js_value =
    JUndefined
  | JNull
  | JBool bool
  | JNum js_number
  | JStr string
  | JArr "js_value list"
  | JObj "(string \<times> js_value) list"
  | JOther "js_error + string"

definition digit_char :: "nat \<Rightarrow> char" where
  "digit_char d = ''0123456789'' ! d"

fun nat_to_string :: "nat \<Rightarrow> string" where
  "nat_to_string n =
     (if n < 10 then [digit_char n] else nat_to_string (n div 10) @ [digit_char (n mod 10)])"

declare nat_to_string.simps [simp del]

fun normalize_decimal :: "nat \<Rightarrow> int \<Rightarrow> nat \<times> int" where
  "normalize_decimal s e =
     (if s \<noteq> 0 \<and> s mod 10 = 0 then normalize_decimal (s div 10) (e + 1) else (s, e))"

declare normalize_decimal.simps [simp del]

definition decimal_to_string :: "nat \<Rightarrow> int \<Rightarrow> string" where
  "decimal_to_string s0 e0 =
     (let (s, e) = normalize_decimal s0 e0;
          digits = nat_to_string s;
          k = int (length digits);
          n = e + k
      in if k \<le> n \<and> n \<le> 21 then digits @ replicate (nat (n - k)) CHR ''0''
         else if 0 < n \<and> n \<le> 21 then take (nat n) digits @ ''.'' @ drop (nat n) digits
         else if - 6 < n \<and> n \<le> 0 then ''0.'' @ replicate (nat (- n)) CHR ''0'' @ digits
         else let c = n - 1;
                  exponent = (if c < 0 then ''-'' else ''+'') @ nat_to_string (nat (abs c))
              in if k = 1 then digits @ ''e'' @ exponent
                 else take 1 digits @ ''.'' @ drop 1 digits @ ''e'' @ exponent)"

fun number_to_string :: "js_number \<Rightarrow> string" where
  "number_to_string NaN = ''NaN''"
| "number_to_string (Infinity negative) = (if negative then ''-Infinity'' else ''Infinity'')"
| "number_to_string (Decimal negative s e) =
     (if s = 0 then ''0'' else (if negative then ''-'' else []) @ decimal_to_string s e)"

fun join :: "string \<Rightarrow> string list \<Rightarrow> string" where
  "join sep [] = []"
| "join sep [s] = s"
| "join sep (s # t # ss) = s @ sep @ join sep (t # ss)"

fun jsToString :: "js_value \<Rightarrow> js_error + string"
  and element_strings :: "js_value list \<Rightarrow> js_error + string list" where
  "jsToString JUndefined = Inr ''undefined''"
| "jsToString JNull = Inr ''null''"
| "jsToString (JBool b) = Inr (if b then ''true'' else ''false'')"
| "jsToString (JNum n) = Inr (number_to_string n)"
| "jsToString (JStr s) = Inr s"
| "jsToString (JArr items) =
     (case element_strings items of
        Inl err \<Rightarrow> Inl err
      | Inr strings \<Rightarrow> Inr (join '','' strings))"
| "jsToString (JObj props) =
     (if ''toString'' \<in> set (map fst props)
      then Inl (TypeError ''Cannot convert object to primitive value'')
      else Inr ''[object Object]'')"
| "jsToString (JOther conversion) = conversion"
| "element_strings [] = Inr []"
| "element_strings (item # rest) =
     (case (if item = JUndefined \<or> item = JNull then Inr [] else jsToString item) of
        Inl err \<Rightarrow> Inl err
      | Inr s \<Rightarrow>
          (case element_strings rest of
             Inl err \<Rightarrow> Inl err
           | Inr strings \<Rightarrow> Inr (s # strings)))"


section \<open>Query serialisation (unified\_client.js, buildQuery)\<close>

text \<open>
  \<open>url.searchParams\<close> is the URL's list of name-value pairs: \<open>append\<close> adds a pair
  at the end, \<open>set\<close> overwrites the first pair of that name and removes the others (or
  appends when there is none), and each of them rewrites the URL's query to the
  \<open>application/x-www-form-urlencoded\<close> serialisation of the list: the pairs, each
  written \<open>name=value\<close> with both sides percent-encoded, joined with \<open>&\<close>.
  \<open>Object.entries(params)\<close> is the list of the object's own properties, whose names
  are distinct. A conversion \<open>String(item)\<close> or \<open>String(value)\<close> that throws ends
  \<open>buildQuery\<close> with that error.
\<close>

type_synonym search_params = "(string \<times> string) list"

definition sp_append :: "search_params \<Rightarrow> string \<Rightarrow> string \<Rightarrow> search_params" where
  "sp_append q name v = q @ [(name, v)]"

fun sp_replace_first :: "search_params \<Rightarrow> string \<Rightarrow> string \<Rightarrow> search_params" where
  "sp_replace_first [] name v = []"
| "sp_replace_first (e # q) name v =
     (if fst e = name then (name, v) # filter (\<lambda>e'. fst e' \<noteq> name) q
      else e # sp_replace_first q name v)"

definition sp_set :: "search_params \<Rightarrow> string \<Rightarrow> string \<Rightarrow> search_params" where
  "sp_set q name v =
     (if name \<in> set (map fst q) then sp_replace_first q name v else sp_append q name v)"

definition utf8_char :: "char \<Rightarrow> bytes" where
  "utf8_char c =
     (let n = (of_char c :: nat) in
      if n < 128 then [of_nat n] else [of_nat (192 + n div 64), of_nat (128 + n mod 64)])"

definition utf8_encode :: "string \<Rightarrow> bytes" where
  "utf8_encode s = concat (map utf8_char s)"

definition hex_char :: "nat \<Rightarrow> char" where
  "hex_char d = ''0123456789ABCDEF'' ! d"

definition percent_byte :: "byte \<Rightarrow> string" where
  "percent_byte b = [CHR ''%'', hex_char (unat b div 16), hex_char (unat b mod 16)]"

definition urlencoded_char :: "char \<Rightarrow> string" where
  "urlencoded_char c =
     (let n = (of_char c :: nat) in
      if n = 42 \<or> n = 45 \<or> n = 46 \<or> n = 95 \<or> (48 \<le> n \<and> n \<le> 57)
           \<or> (65 \<le> n \<and> n \<le> 90) \<or> (97 \<le> n \<and> n \<le> 122)
      then [c]
      else if n = 32 then ''+''
      else concat (map percent_byte (utf8_char c)))"

definition urlencoded :: "string \<Rightarrow> string" where
  "urlencoded s = concat (map urlencoded_char s)"

definition serialize_pair :: "string \<times> string \<Rightarrow> string" where
  "serialize_pair e = urlencoded (fst e) @ ''='' @ urlencoded (snd e)"

definition sp_toString :: "search_params \<Rightarrow> string" where
  "sp_toString q = join ''&'' (map serialize_pair q)"

record js_url =
  url_prefix :: string
  url_query :: string
  searchParams :: search_params
  url_fragment :: string

definition update_query :: "js_url \<Rightarrow> search_params \<Rightarrow> js_url" where
  "update_query url q =
     url\<lparr>searchParams := q,
         url_query := (let serialized = sp_toString q
                       in if serialized = [] then [] else CHR ''?'' # serialized)\<rparr>"

definition searchParams_append :: "js_url \<Rightarrow> string \<Rightarrow> string \<Rightarrow> js_url" where
  "searchParams_append url name v = update_query url (sp_append (searchParams url) name v)"

definition searchParams_set :: "js_url \<Rightarrow> string \<Rightarrow> string \<Rightarrow> js_url" where
  "searchParams_set url name v = update_query url (sp_set (searchParams url) name v)"

definition url_toString :: "js_url \<Rightarrow> string" where
  "url_toString url = url_prefix url @ url_query url @ url_fragment url"

fun isArray :: "js_value \<Rightarrow> bool" where
  "isArray (JArr items) = True"
| "isArray v = False"

fun array_items :: "js_value \<Rightarrow> js_value list" where
  "array_items (JArr items) = items"
| "array_items v = []"

fun append_items :: "js_url \<Rightarrow> string \<Rightarrow> js_value list \<Rightarrow> js_error + js_url" where
  "append_items url key [] = Inr url"
| "append_items url key (item # items) =
     (case jsToString item of
        Inl err \<Rightarrow> Inl err
      | Inr s \<Rightarrow> append_items (searchParams_append url key s) key items)"

definition buildQuery_entry :: "js_url \<Rightarrow> string \<Rightarrow> js_value \<Rightarrow> js_error + js_url" where
  "buildQuery_entry url key v =
     (if isArray v then append_items url key (array_items v)
      else if v \<noteq> JUndefined \<and> v \<noteq> JNull
      then (case jsToString v of
              Inl err \<Rightarrow> Inl err
            | Inr s \<Rightarrow> Inr (searchParams_set url key s))
      else Inr url)"

fun buildQuery_loop :: "js_url \<Rightarrow> (string \<times> js_value) list \<Rightarrow> js_error + js_url" where
  "buildQuery_loop url [] = Inr url"
| "buildQuery_loop url ((key, v) # rest) =
     (case buildQuery_entry url key v of
        Inl err \<Rightarrow> Inl err
      | Inr url' \<Rightarrow> buildQuery_loop url' rest)"

definition buildQuery :: "js_url \<Rightarrow> (string \<times> js_value) list option \<Rightarrow> js_error + js_url" where
  "buildQuery url params =
     (case params of None \<Rightarrow> Inr url | Some entries \<Rightarrow> buildQuery_loop url entries)"

section \<open>String helpers and error messages\<close>

text \<open>
  \<open>error_message\<close> is the message text of the errors that the sources construct. The
  HTTP error of \<open>request\<close> has the message
  \<open>`HTTP ${status} ${statusText} ${message}`.trim()\<close>, the one of \<open>downloadImage\<close>
  the same without the body text. The text of the other errors comes from the platform.
\<close>

definition strip_trailing_slashes :: "string \<Rightarrow> string" where
  "strip_trailing_slashes s = rev (dropWhile (\<lambda>c. c = CHR ''/'') (rev s))"

definition strip_leading_slash :: "string \<Rightarrow> string" where
  "strip_leading_slash s = (case s of [] \<Rightarrow> [] | c # t \<Rightarrow> if c = CHR ''/'' then t else s)"

definition startsWith :: "'a list \<Rightarrow> 'a list \<Rightarrow> bool" where
  "startsWith s p = (take (length p) s = p)"

fun js_includes :: "'a list \<Rightarrow> 'a list \<Rightarrow> bool" where
  "js_includes [] sub = (sub = [])"
| "js_includes (c # s) sub = (startsWith (c # s) sub \<or> js_includes s sub)"

definition lower_char :: "char \<Rightarrow> char" where
  "lower_char c =
     (let n = (of_char c :: nat) in
      if (65 \<le> n \<and> n \<le> 90) \<or> (192 \<le> n \<and> n \<le> 222 \<and> n \<noteq> 215) then char_of (n + 32) else c)"

definition toLowerCase :: "string \<Rightarrow> string" where
  "toLowerCase s = map lower_char s"

definition js_whitespace :: "char \<Rightarrow> bool" where
  "js_whitespace c = (of_char c \<in> {9, 10, 11, 12, 13, 32, 160 :: nat})"

definition js_trim :: "string \<Rightarrow> string" where
  "js_trim s = rev (dropWhile js_whitespace (rev (dropWhile js_whitespace s)))"

definition http_error_message :: "nat \<Rightarrow> string \<Rightarrow> string \<Rightarrow> string" where
  "http_error_message st txt msg = js_trim (''HTTP '' @ nat_to_string st @ '' '' @ txt @ '' '' @ msg)"

fun error_message :: "js_error \<Rightarrow> string option" where
  "error_message InvalidChallenge = Some ''challenge must include a prefix + base64 payload''"
| "error_message (UnsupportedKeyLength n) =
     Some (''Unexpected Ed25519 key length: '' @ nat_to_string n @ '' bytes'')"
| "error_message KeyMaterialNotFound =
     Some ''Authorization key file not found. Set VAONIS_AUTH_KEY_FILE or pass keyMaterial.''"
| "error_message (PathNotAllowed resolved) = Some (''Key file path is outside allowed roots: '' @ resolved)"
| "error_message BaseUrlNotDetected = Some ''Unable to detect a working base URL''"
| "error_message (UnknownOperation operationId) = Some (''Unknown operationId: '' @ operationId)"
| "error_message (HttpError st txt msg) = Some (http_error_message st txt msg)"
| "error_message (LibraryError msg) = Some msg"
| "error_message (TypeError msg) = Some msg"
| "error_message err = None"


section \<open>The unified HTTP client (unified\_client.js)\<close>

text \<open>
  A response is the status line, the content-type header (\<open>None\<close> when absent) and the
  body bytes. The fetch implementation is a parameter: it answers a call from the calls
  made so far, its URL and its init; the world records every call, so that a theorem can
  say that no call was made. The module-level \<open>routesCache\<close> is part of the world.
  The URL constructor (\<open>None\<close> when it throws), \<open>JSON.stringify\<close> (the string or
  undefined that it returns, or the error that it throws), \<open>response.json()\<close>
  (\<open>None\<close> when it rejects) and \<open>response.text()\<close> are parameters of the platform.
  Logging only writes to the logger and is left out; the timeout shows as a rejected
  fetch.
\<close>

record response =
  status :: nat
  statusText :: string
  contentType :: "string option"
  body :: bytes

definition ok :: "response \<Rightarrow> bool" where
  "ok r = (200 \<le> status r \<and> status r \<le> 299)"

record fetch_init =
  fi_method :: string
  fi_headers :: "(string \<times> string) list"
  fi_body :: js_value

record route =
  operationId :: string
  route_method :: string
  route_path :: string

record client =
  host :: string
  port :: nat
  apiBasePath :: string
  prefixes :: "string list"
  baseUrl :: "string option"

record world =
  calls :: "(string \<times> fetch_init) list"
  routesCache :: "(string \<times> route) list option"

type_synonym fetch_impl = "(string \<times> fetch_init) list \<Rightarrow> string \<Rightarrow> fetch_init \<Rightarrow> js_error + response"

record platform =
  newURL :: "string \<Rightarrow> js_url option"
  jsonStringify :: "js_value \<Rightarrow> js_error + js_value"
  jsonParse :: "bytes \<Rightarrow> js_value option"
  textDecode :: "bytes \<Rightarrow> string"

record request_options =
  auth :: "string option"
  params :: "(string \<times> js_value) list option"
  jsonBody :: js_value
  req_body :: js_value
  headers :: "(string \<times> string) list"

definition fetchWithTimeout ::
    "fetch_impl \<Rightarrow> world \<Rightarrow> string \<Rightarrow> fetch_init \<Rightarrow> (js_error + response) \<times> world" where
  "fetchWithTimeout fetchImpl w url init =
     (fetchImpl (calls w) url init, w\<lparr>calls := calls w @ [(url, init)]\<rparr>)"

definition makeBaseUrl :: "client \<Rightarrow> string \<Rightarrow> string" where
  "makeBaseUrl c prefix =
     strip_trailing_slashes (''http://'' @ host c @ '':'' @ nat_to_string (port c) @ prefix @ apiBasePath c)"

fun detect_loop ::
    "fetch_impl \<Rightarrow> client \<Rightarrow> world \<Rightarrow> string list \<Rightarrow> (js_error + string) \<times> client \<times> world" where
  "detect_loop fetchImpl c w [] = (Inl BaseUrlNotDetected, c, w)"
| "detect_loop fetchImpl c w (prefix # rest) =
     (let candidate = makeBaseUrl c prefix;
          (r, w') = fetchWithTimeout fetchImpl w (candidate @ ''/app/status'')
                      \<lparr>fi_method = ''GET'', fi_headers = [], fi_body = JUndefined\<rparr>
      in case r of
           Inr resp \<Rightarrow>
             if ok resp then (Inr candidate, c\<lparr>baseUrl := Some candidate\<rparr>, w')
             else detect_loop fetchImpl c w' rest
         | Inl err \<Rightarrow> detect_loop fetchImpl c w' rest)"

definition detectBaseUrl ::
    "fetch_impl \<Rightarrow> client \<Rightarrow> world \<Rightarrow> (js_error + string) \<times> client \<times> world" where
  "detectBaseUrl fetchImpl c w = detect_loop fetchImpl c w (prefixes c)"

definition resolve_base ::
    "fetch_impl \<Rightarrow> client \<Rightarrow> world \<Rightarrow> (js_error + string) \<times> client \<times> world" where
  "resolve_base fetchImpl c w =
     (case baseUrl c of
        Some b \<Rightarrow> if b \<noteq> [] then (Inr b, c, w) else detectBaseUrl fetchImpl c w
      | None \<Rightarrow> detectBaseUrl fetchImpl c w)"

definition set_property :: "(string \<times> 'v) list \<Rightarrow> string \<Rightarrow> 'v \<Rightarrow> (string \<times> 'v) list" where
  "set_property obj name v =
     (if name \<in> set (map fst obj) then map (\<lambda>(k, x). if k = name then (k, v) else (k, x)) obj
      else obj @ [(name, v)])"

definition with_authorization :: "(string \<times> string) list \<Rightarrow> string option \<Rightarrow> (string \<times> string) list" where
  "with_authorization hdrs a =
     (case a of
        Some token \<Rightarrow> if token \<noteq> [] then set_property hdrs ''Authorization'' token else hdrs
      | None \<Rightarrow> hdrs)"

definition request_url :: "string \<Rightarrow> string \<Rightarrow> string" where
  "request_url base p = strip_trailing_slashes base @ ''/'' @ strip_leading_slash p"

definition request_fetch ::
    "platform \<Rightarrow> fetch_impl \<Rightarrow> client \<Rightarrow> world \<Rightarrow> string \<Rightarrow> string \<Rightarrow> request_options
       \<Rightarrow> (js_error + response) \<times> client \<times> world" where
  "request_fetch P fetchImpl c w meth p opts =
     (case resolve_base fetchImpl c w of
        (Inl err, c', w') \<Rightarrow> (Inl err, c', w')
      | (Inr base, c', w') \<Rightarrow>
          (case newURL P (request_url base p) of
             None \<Rightarrow> (Inl (InvalidURL (request_url base p)), c', w')
           | Some url0 \<Rightarrow>
               (case buildQuery url0 (params opts) of
                  Inl err \<Rightarrow> (Inl err, c', w')
                | Inr url \<Rightarrow>
                    (case (if jsonBody opts \<noteq> JUndefined then jsonStringify P (jsonBody opts)
                           else Inr (req_body opts)) of
                       Inl err \<Rightarrow> (Inl err, c', w')
                     | Inr resolvedBody \<Rightarrow>
                         let h1 = with_authorization (headers opts) (auth opts);
                             h2 = (if jsonBody opts \<noteq> JUndefined
                                      \<and> (case map_of h1 ''Content-Type'' of
                                            None \<Rightarrow> True | Some t \<Rightarrow> t = [])
                                   then set_property h1 ''Content-Type'' ''application/json'' else h1);
                             (r, w'') = fetchWithTimeout fetchImpl w' (url_toString url)
                                          \<lparr>fi_method = meth, fi_headers = h2, fi_body = resolvedBody\<rparr>
                         in (r, c', w'')))))"

definition header_or_empty :: "string option \<Rightarrow> string" where
  "header_or_empty h = (case h of None \<Rightarrow> [] | Some t \<Rightarrow> t)"

definition request_finish :: "platform \<Rightarrow> response \<Rightarrow> js_error + js_value" where
  "request_finish P resp =
     (let ct = header_or_empty (contentType resp) in
      case (if js_includes ct ''application/json'' then jsonParse P (body resp)
            else Some (JStr (textDecode P (body resp)))) of
        None \<Rightarrow> Inl JsonSyntaxError
      | Some payload \<Rightarrow>
          if \<not> ok resp
          then Inl (HttpError (status resp) (statusText resp)
                      (case payload of JStr text \<Rightarrow> text | _ \<Rightarrow> []))
          else Inr payload)"

definition request ::
    "platform \<Rightarrow> fetch_impl \<Rightarrow> client \<Rightarrow> world \<Rightarrow> string \<Rightarrow> string \<Rightarrow> request_options
       \<Rightarrow> (js_error + js_value) \<times> client \<times> world" where
  "request P fetchImpl c w meth p opts =
     (case request_fetch P fetchImpl c w meth p opts of
        (Inl err, c', w') \<Rightarrow> (Inl err, c', w')
      | (Inr resp, c', w') \<Rightarrow> (request_finish P resp, c', w'))"

definition map_get :: "(string \<times> 'v) list \<Rightarrow> string \<Rightarrow> 'v option" where
  "map_get m k = map_of (rev m) k"

definition loadRoutes ::
    "(js_error + route list) \<Rightarrow> world \<Rightarrow> (js_error + (string \<times> route) list) \<times> world" where
  "loadRoutes routesFile w =
     (case routesCache w of
        Some m \<Rightarrow> (Inr m, w)
      | None \<Rightarrow>
          (case routesFile of
             Inl err \<Rightarrow> (Inl err, w)
           | Inr data \<Rightarrow>
               let m = map (\<lambda>item. (operationId item, item)) data
               in (Inr m, w\<lparr>routesCache := Some m\<rparr>)))"

definition callOperation ::
    "platform \<Rightarrow> fetch_impl \<Rightarrow> (js_error + route list) \<Rightarrow> client \<Rightarrow> world \<Rightarrow> string
       \<Rightarrow> request_options \<Rightarrow> (js_error + js_value) \<times> client \<times> world" where
  "callOperation P fetchImpl routesFile c w opId opts =
     (case loadRoutes routesFile w of
        (Inl err, w') \<Rightarrow> (Inl err, c, w')
      | (Inr m, w') \<Rightarrow>
          (case map_get m opId of
             None \<Rightarrow> (Inl (UnknownOperation opId), c, w')
           | Some r \<Rightarrow> request P fetchImpl c w' (route_method r) (route_path r) opts))"

definition png_signature :: bytes where
  "png_signature = [0x89, 0x50, 0x4e, 0x47, 0x0d, 0x0a, 0x1a, 0x0a]"

definition looksLikeImage :: "bytes \<Rightarrow> string \<Rightarrow> bool" where
  "looksLikeImage buffer ct =
     (if ct \<noteq> [] \<and> startsWith (toLowerCase ct) ''image/'' then True
      else if length buffer < 4 then False
      else if buffer ! 0 = 0xff \<and> buffer ! 1 = 0xd8 \<and> buffer ! 2 = 0xff then True
      else if take 8 buffer = png_signature then True
      else if take 2 buffer = utf8_encode ''BM'' then True
      else if take 6 buffer = utf8_encode ''GIF87a'' \<or> take 6 buffer = utf8_encode ''GIF89a'' then True
      else if take 4 buffer = [0x49, 0x49, 0x2a, 0x00] \<or> take 4 buffer = [0x4d, 0x4d, 0x00, 0x2a] then True
      else if length buffer \<ge> 12 \<and> take 4 buffer = utf8_encode ''RIFF''
              \<and> take 4 (drop 8 buffer) = utf8_encode ''WEBP'' then True
      else False)"

record download_options =
  dl_auth :: "string option"
  dl_headers :: "(string \<times> string) list"
  dl_params :: "(string \<times> js_value) list option"

definition downloadImage_fetch ::
    "platform \<Rightarrow> fetch_impl \<Rightarrow> client \<Rightarrow> world \<Rightarrow> string \<Rightarrow> download_options
       \<Rightarrow> (js_error + response) \<times> client \<times> world" where
  "downloadImage_fetch P fetchImpl c w urlOrPath opts =
     (case resolve_base fetchImpl c w of
        (Inl err, c', w') \<Rightarrow> (Inl err, c', w')
      | (Inr base, c', w') \<Rightarrow>
          (let fullUrl = (if startsWith urlOrPath ''http://'' \<or> startsWith urlOrPath ''https://''
                          then urlOrPath else request_url base urlOrPath)
           in case newURL P fullUrl of
                None \<Rightarrow> (Inl (InvalidURL fullUrl), c', w')
              | Some url0 \<Rightarrow>
                  (case buildQuery url0 (dl_params opts) of
                     Inl err \<Rightarrow> (Inl err, c', w')
                   | Inr url \<Rightarrow>
                       let resolvedHeaders = with_authorization (dl_headers opts) (dl_auth opts);
                           (r, w'') = fetchWithTimeout fetchImpl w' (url_toString url)
                                        \<lparr>fi_method = ''GET'', fi_headers = resolvedHeaders,
                                          fi_body = JUndefined\<rparr>
                       in (r, c', w''))))"

definition downloadImage_finish :: "response \<Rightarrow> js_error + bytes" where
  "downloadImage_finish resp =
     (if ok resp \<or> looksLikeImage (body resp) (header_or_empty (contentType resp))
      then Inr (body resp)
      else Inl (HttpError (status resp) (statusText resp) []))"

definition downloadImage ::
    "platform \<Rightarrow> fetch_impl \<Rightarrow> client \<Rightarrow> world \<Rightarrow> string \<Rightarrow> download_options
       \<Rightarrow> (js_error + bytes) \<times> client \<times> world" where
  "downloadImage P fetchImpl c w urlOrPath opts =
     (case downloadImage_fetch P fetchImpl c w urlOrPath opts of
        (Inl err, c', w') \<Rightarrow> (Inl err, c', w')
      | (Inr resp, c', w') \<Rightarrow> (downloadImage_finish resp, c', w'))"

section \<open>Authorization header and key material (auth.js)\<close>

text \<open>
  SHA-512, the Ed25519 primitives of the signing library and the lenient base64 decoder
  of \<open>Buffer.from(s, "base64")\<close> are parameters; \<open>crypto_ok\<close> states the lengths of
  what they return. \<open>nacl_sign\<close> is the library's combined form: the signature followed
  by the message, for a 64-byte secret key; \<open>keyPair_fromSeed\<close> gives the secret key of a
  32-byte seed, the seed followed by its public key.

  The file system is the environment: the working directory, the home and temporary
  directories, the directory of the module, the \<open>VAONIS_AUTH_KEY_FILE\<close> variable, and
  what \<open>existsSync\<close> and \<open>readFileSync\<close> answer (\<open>None\<close> when the read throws).
  Every call of either is recorded. \<open>path_resolve\<close> is \<open>path.resolve\<close> on a POSIX
  platform, whose working directory is absolute; the comparison of
  \<open>normalizeForCompare\<close> is the one of a platform other than win32.

  The context has the types of the \<open>AuthContext\<close> typedef: the challenge and the
  telescope id are strings, the boot count is a string or a number, and the template
  literal of \<open>buildPayload\<close> prints it.
\<close>

datatype boot_count = BootString string | BootNumber js_number

fun boot_count_text :: "boot_count \<Rightarrow> string" where
  "boot_count_text (BootString s) = s"
| "boot_count_text (BootNumber n) = number_to_string n"

record auth_context =
  challenge :: string
  telescopeId :: string
  bootCount :: boot_count

datatype key_material = KeyString string | KeyBytes bytes

record auth_options =
  keyMaterial :: "key_material option"
  keyFile :: "string option"

record crypto =
  sha512 :: "bytes \<Rightarrow> bytes"
  sign_detached :: "bytes \<Rightarrow> bytes \<Rightarrow> bytes"
  seed_public_key :: "bytes \<Rightarrow> bytes"
  base64_decode :: "string \<Rightarrow> bytes"

definition crypto_ok :: "crypto \<Rightarrow> bool" where
  "crypto_ok L =
     ((\<forall>m. length (sha512 L m) = 64)
      \<and> (\<forall>m k. length (sign_detached L m k) = 64)
      \<and> (\<forall>s. length (seed_public_key L s) = 32))"

datatype fs_op = ExistsSync string | ReadFileSync string

record fs_env =
  cwd :: string
  homedir :: string
  tmpdir :: string
  dirname :: string
  env_key_file :: "string option"
  existsSync :: "string \<Rightarrow> bool"
  readFileSync :: "string \<Rightarrow> string option"

definition base64_alphabet :: string where
  "base64_alphabet = ''ABCDEFGHIJKLMNOPQRSTUVWXYZabcdefghijklmnopqrstuvwxyz0123456789+/''"

definition b64 :: "nat \<Rightarrow> char" where
  "b64 i = base64_alphabet ! i"

fun base64_encode :: "bytes \<Rightarrow> string" where
  "base64_encode [] = []"
| "base64_encode [a] =
     [b64 (unat a div 4), b64 (unat a mod 4 * 16), CHR ''='', CHR ''='']"
| "base64_encode [a, b] =
     [b64 (unat a div 4), b64 (unat a mod 4 * 16 + unat b div 16), b64 (unat b mod 16 * 4), CHR ''='']"
| "base64_encode (a # b # c # rest) =
     [b64 (unat a div 4), b64 (unat a mod 4 * 16 + unat b div 16),
      b64 (unat b mod 16 * 4 + unat c div 64), b64 (unat c mod 64)] @ base64_encode rest"

fun split_on :: "char \<Rightarrow> string \<Rightarrow> string list" where
  "split_on sep [] = [[]]"
| "split_on sep (c # s) =
     (if c = sep then [] # split_on sep s
      else (case split_on sep s of [] \<Rightarrow> [[c]] | seg # segs \<Rightarrow> (c # seg) # segs))"

fun normalize_segments :: "string list \<Rightarrow> string list \<Rightarrow> string list" where
  "normalize_segments res [] = res"
| "normalize_segments res (seg # segs) =
     (if seg = [] \<or> seg = ''.'' then normalize_segments res segs
      else if seg = ''..'' then normalize_segments (butlast res) segs
      else normalize_segments (res @ [seg]) segs)"

fun resolve_join :: "string list \<Rightarrow> string \<Rightarrow> string" where
  "resolve_join [] resolvedPath = resolvedPath"
| "resolve_join (p # ps) resolvedPath =
     (if p = [] then resolve_join ps resolvedPath
      else if hd p = CHR ''/'' then p @ ''/'' @ resolvedPath
      else resolve_join ps (p @ ''/'' @ resolvedPath))"

definition path_resolve :: "fs_env \<Rightarrow> string list \<Rightarrow> string" where
  "path_resolve E args =
     CHR ''/'' # join ''/'' (normalize_segments [] (split_on CHR ''/'' (resolve_join (rev args @ [cwd E]) [])))"

definition SAFE_KEY_ROOTS :: "fs_env \<Rightarrow> string list" where
  "SAFE_KEY_ROOTS E =
     [cwd E, homedir E, tmpdir E, path_resolve E [dirname E, ''..''],
      path_resolve E [dirname E, ''../../..'']]"

definition is_separator :: "char \<Rightarrow> bool" where
  "is_separator c = (c = CHR 0x5C \<or> c = CHR ''/'')"

definition normalizeForCompare :: "fs_env \<Rightarrow> string \<Rightarrow> string" where
  "normalizeForCompare E v = rev (dropWhile is_separator (rev (path_resolve E [v])))"

definition endsWith :: "'a list \<Rightarrow> 'a list \<Rightarrow> bool" where
  "endsWith s suffix = (length suffix \<le> length s \<and> drop (length s - length suffix) s = suffix)"

definition isWithinRoot :: "fs_env \<Rightarrow> string \<Rightarrow> string \<Rightarrow> bool" where
  "isWithinRoot E root target =
     (let normalizedRoot = normalizeForCompare E root;
          normalizedTarget = normalizeForCompare E target
      in if normalizedRoot = normalizedTarget then True
         else let withSep =
                    (if endsWith normalizedRoot [CHR 0x5C] \<or> endsWith normalizedRoot ''/''
                     then normalizedRoot
                     else normalizedRoot @ (if CHR 0x5C \<in> set normalizedRoot then [CHR 0x5C] else ''/''))
              in startsWith normalizedTarget withSep)"

fun first_root :: "fs_env \<Rightarrow> string list \<Rightarrow> string \<Rightarrow> bool" where
  "first_root E [] resolved = False"
| "first_root E (root # roots) resolved =
     (if root \<noteq> [] \<and> isWithinRoot E root resolved then True else first_root E roots resolved)"

definition normalizeKeyPath :: "fs_env \<Rightarrow> string \<Rightarrow> js_error + string" where
  "normalizeKeyPath E v =
     (let resolved = path_resolve E [v]
      in if first_root E (SAFE_KEY_ROOTS E) resolved then Inr resolved
         else Inl (PathNotAllowed resolved))"

definition key_candidates :: "fs_env \<Rightarrow> string option \<Rightarrow> string list" where
  "key_candidates E explicitPath =
     (case explicitPath of None \<Rightarrow> [] | Some p \<Rightarrow> if p \<noteq> [] then [p] else [])
     @ (case env_key_file E of None \<Rightarrow> [] | Some p \<Rightarrow> if p \<noteq> [] then [p] else [])
     @ [path_resolve E [cwd E, ''.auth_key''],
        path_resolve E [dirname E, ''../.auth_key''],
        path_resolve E [dirname E, ''../../..'', ''python'', ''.auth_key'']]"

fun findKeyPath_loop :: "fs_env \<Rightarrow> string list \<Rightarrow> string option \<times> fs_op list" where
  "findKeyPath_loop E [] = (None, [])"
| "findKeyPath_loop E (candidate # rest) =
     (if candidate = [] then findKeyPath_loop E rest
      else if existsSync E candidate
      then (case normalizeKeyPath E candidate of
              Inr resolved \<Rightarrow> (Some resolved, [ExistsSync candidate])
            | Inl err \<Rightarrow> (let (r, ops) = findKeyPath_loop E rest in (r, ExistsSync candidate # ops)))
      else (let (r, ops) = findKeyPath_loop E rest in (r, ExistsSync candidate # ops)))"

definition findKeyPath :: "fs_env \<Rightarrow> string option \<Rightarrow> string option \<times> fs_op list" where
  "findKeyPath E explicitPath = findKeyPath_loop E (key_candidates E explicitPath)"

definition readKeyFile :: "fs_env \<Rightarrow> crypto \<Rightarrow> string \<Rightarrow> (js_error + bytes) \<times> fs_op list" where
  "readKeyFile E L p =
     (case normalizeKeyPath E p of
        Inl err \<Rightarrow> (Inl err, [])
      | Inr safePath \<Rightarrow>
          (case readFileSync E safePath of
             None \<Rightarrow> (Inl (FileSystemError safePath), [ReadFileSync safePath])
           | Some raw \<Rightarrow> (Inr (base64_decode L (js_trim raw)), [ReadFileSync safePath])))"

definition key_bytes :: "crypto \<Rightarrow> key_material \<Rightarrow> bytes" where
  "key_bytes L km = (case km of KeyString s \<Rightarrow> base64_decode L s | KeyBytes b \<Rightarrow> b)"

definition resolveKeyMaterial ::
    "fs_env \<Rightarrow> crypto \<Rightarrow> auth_options \<Rightarrow> (js_error + bytes) \<times> fs_op list" where
  "resolveKeyMaterial E L opts =
     (case keyMaterial opts of
        Some km \<Rightarrow> (Inr (key_bytes L km), [])
      | None \<Rightarrow>
          (case findKeyPath E (keyFile opts) of
             (None, ops) \<Rightarrow> (Inl KeyMaterialNotFound, ops)
           | (Some p, ops) \<Rightarrow> (let (r, ops') = readKeyFile E L p in (r, ops @ ops'))))"

definition buildPayload :: "crypto \<Rightarrow> auth_context \<Rightarrow> js_error + bytes" where
  "buildPayload L ctx =
     (if challenge ctx = [] \<or> length (challenge ctx) < 2 then Inl InvalidChallenge
      else let challengeBytes = base64_decode L (drop 1 (challenge ctx));
               tail = ''|'' @ telescopeId ctx @ ''|'' @ boot_count_text (bootCount ctx)
           in Inr (challengeBytes @ utf8_encode tail))"

definition nacl_sign :: "crypto \<Rightarrow> bytes \<Rightarrow> bytes \<Rightarrow> js_error + bytes" where
  "nacl_sign L msg secretKey =
     (if length secretKey \<noteq> 64 then Inl (LibraryError ''bad secret key size'')
      else Inr (sign_detached L msg secretKey @ msg))"

definition keyPair_fromSeed :: "crypto \<Rightarrow> bytes \<Rightarrow> js_error + bytes" where
  "keyPair_fromSeed L seed =
     (if length seed \<noteq> 32 then Inl (LibraryError ''bad seed size'')
      else Inr (seed @ seed_public_key L seed))"

definition signDigest :: "crypto \<Rightarrow> bytes \<Rightarrow> bytes \<Rightarrow> js_error + bytes" where
  "signDigest L digest keyBytes =
     (if length keyBytes = 64 then nacl_sign L digest keyBytes
      else if length keyBytes = 32
      then (case keyPair_fromSeed L keyBytes of
              Inl err \<Rightarrow> Inl err
            | Inr secretKey \<Rightarrow> nacl_sign L digest secretKey)
      else Inl (UnsupportedKeyLength (length keyBytes)))"

definition buildAuthorizationHeader ::
    "fs_env \<Rightarrow> crypto \<Rightarrow> auth_context \<Rightarrow> auth_options \<Rightarrow> (js_error + string) \<times> fs_op list" where
  "buildAuthorizationHeader E L ctx opts =
     (case resolveKeyMaterial E L opts of
        (Inl err, ops) \<Rightarrow> (Inl err, ops)
      | (Inr keyBytes, ops) \<Rightarrow>
          (case buildPayload L ctx of
             Inl err \<Rightarrow> (Inl err, ops)
           | Inr payload \<Rightarrow>
               (let digest = sha512 L payload
                in case signDigest L digest keyBytes of
                     Inl err \<Rightarrow> (Inl err, ops)
                   | Inr signedMessage \<Rightarrow>
                       (Inr (''Basic android|'' @ [challenge ctx ! 0] @ ''|'' @ base64_encode signedMessage),
                        ops))))"

section \<open>The command channel (socket client, sendCommand)\<close>

text \<open>
  The socket is the list of the \<open>emit\<close> calls made on it: the event name, the
  arguments after it, and the acknowledgement callback when one is passed. A payload or a
  callback that is not supplied is \<open>undefined\<close>: \<open>JUndefined\<close>, and \<open>None\<close>.
  The epoch of \<open>setSystemTime\<close> is a number, as its \<open>@param\<close> declares, so that
  \<open>Number(epochMs)\<close> is the number itself.
\<close>

record 'cb socket_emit =
  emit_event :: string
  emit_args :: "js_value list"
  emit_ack :: "'cb option"

definition emit :: "'cb socket_emit list \<Rightarrow> string \<Rightarrow> js_value list \<Rightarrow> 'cb option \<Rightarrow> 'cb socket_emit list" where
  "emit socket event args ack_cb =
     socket @ [\<lparr>emit_event = event, emit_args = args, emit_ack = ack_cb\<rparr>]"

definition sendCommand ::
    "'cb socket_emit list \<Rightarrow> string \<Rightarrow> js_value \<Rightarrow> 'cb option \<Rightarrow> 'cb socket_emit list" where
  "sendCommand socket command payload callback =
     (let data = (if payload = JUndefined then JArr [JStr command] else JArr [JStr command, payload])
      in case callback of
           Some cb \<Rightarrow> emit socket ''message'' [data] (Some cb)
         | None \<Rightarrow> emit socket ''message'' [data] None)"

definition getStatus :: "'cb socket_emit list \<Rightarrow> 'cb option \<Rightarrow> 'cb socket_emit list" where
  "getStatus socket callback = sendCommand socket ''getStatus'' JUndefined callback"

definition setSystemTime :: "'cb socket_emit list \<Rightarrow> js_number \<Rightarrow> bool \<Rightarrow> 'cb socket_emit list" where
  "setSystemTime socket epochMs useObject =
     sendCommand socket ''setSystemTime''
       (if useObject then JObj [(''timestamp'', JNum epochMs)] else JNum epochMs) None"

section \<open>Predicates used in the statements\<close>

text \<open>
  The pairs of one name in a list of query pairs. The strings that \<open>buildQuery\<close>
  converts for an entry: one for each item of an array, none for undefined and null, one
  for any other value; or the first error among these conversions, and
  \<open>conversion_error\<close> is the first error over the entries of a params object. A value
  is \<open>object_free\<close> when it is undefined, null, a boolean, a number, a string or an
  array of such values. An entry \<open>writes\<close> when it adds or sets at least one pair;
  \<open>entry_pairs\<close> is the list of pairs after an entry whose conversions gave
  \<open>strings\<close>. \<open>query_entries\<close> reads the entries of a URL's query back: the
  pieces between the \<open>&\<close> characters after the question mark.
\<close>

definition named :: "string \<Rightarrow> search_params \<Rightarrow> search_params" where
  "named key q = filter (\<lambda>e. fst e = key) q"

fun item_strings :: "js_value list \<Rightarrow> js_error + string list" where
  "item_strings [] = Inr []"
| "item_strings (item # items) =
     (case jsToString item of
        Inl err \<Rightarrow> Inl err
      | Inr s \<Rightarrow>
          (case item_strings items of
             Inl err \<Rightarrow> Inl err
           | Inr strings \<Rightarrow> Inr (s # strings)))"

definition entry_strings :: "js_value \<Rightarrow> js_error + string list" where
  "entry_strings v =
     (if isArray v then item_strings (array_items v)
      else if v \<noteq> JUndefined \<and> v \<noteq> JNull
      then (case jsToString v of Inl err \<Rightarrow> Inl err | Inr s \<Rightarrow> Inr [s])
      else Inr [])"

fun conversion_error :: "(string \<times> js_value) list \<Rightarrow> js_error option" where
  "conversion_error [] = None"
| "conversion_error ((key, v) # rest) =
     (case entry_strings v of
        Inl err \<Rightarrow> Some err
      | Inr strings \<Rightarrow> conversion_error rest)"

fun object_free :: "js_value \<Rightarrow> bool" where
  "object_free (JArr items) = list_all object_free items"
| "object_free (JObj props) = False"
| "object_free (JOther conversion) = False"
| "object_free v = True"

definition writes :: "js_value \<Rightarrow> bool" where
  "writes v = (if isArray v then array_items v \<noteq> [] else v \<noteq> JUndefined \<and> v \<noteq> JNull)"

definition entry_pairs :: "search_params \<Rightarrow> string \<Rightarrow> js_value \<Rightarrow> string list \<Rightarrow> search_params" where
  "entry_pairs q key v strings =
     (if isArray v then q @ map (Pair key) strings
      else if strings = [] then q else sp_set q key (hd strings))"

definition query_entries :: "js_url \<Rightarrow> string list" where
  "query_entries url = split_on CHR ''&'' (drop 1 (url_query url))"

text \<open>
  The probe that \<open>detectBaseUrl\<close> sends for a prefix, and whether it succeeds after the
  calls made so far; the content-type and signature conditions of the image download, in
  the words of the specification.
\<close>

definition probe_init :: fetch_init where
  "probe_init = \<lparr>fi_method = ''GET'', fi_headers = [], fi_body = JUndefined\<rparr>"

definition probe_call :: "client \<Rightarrow> string \<Rightarrow> string \<times> fetch_init" where
  "probe_call c prefix = (makeBaseUrl c prefix @ ''/app/status'', probe_init)"

definition probe_ok :: "fetch_impl \<Rightarrow> (string \<times> fetch_init) list \<Rightarrow> client \<Rightarrow> string \<Rightarrow> bool" where
  "probe_ok fetchImpl history c prefix =
     (case fetchImpl history (fst (probe_call c prefix)) probe_init of
        Inr resp \<Rightarrow> ok resp
      | Inl err \<Rightarrow> False)"

definition declares_image :: "string option \<Rightarrow> bool" where
  "declares_image ct = (case ct of None \<Rightarrow> False | Some t \<Rightarrow> startsWith (toLowerCase t) ''image/'')"

definition matches_image_signature :: "bytes \<Rightarrow> bool" where
  "matches_image_signature b =
     (startsWith b [0xff, 0xd8, 0xff]
      \<or> startsWith b png_signature
      \<or> startsWith b (utf8_encode ''BM'')
      \<or> startsWith b (utf8_encode ''GIF87a'') \<or> startsWith b (utf8_encode ''GIF89a'')
      \<or> startsWith b [0x49, 0x49, 0x2a, 0x00] \<or> startsWith b [0x4d, 0x4d, 0x00, 0x2a]
      \<or> (startsWith b (utf8_encode ''RIFF'') \<and> take 4 (drop 8 b) = utf8_encode ''WEBP''))"

text \<open>
  The digest that is signed and the signed message, in the words of the specification;
  the secret key that signs is the 64-byte key itself, or the seed followed by its public
  key.
\<close>

definition signed_digest :: "crypto \<Rightarrow> auth_context \<Rightarrow> bytes" where
  "signed_digest L ctx =
     sha512 L (base64_decode L (drop 1 (challenge ctx))
               @ utf8_encode (''|'' @ telescopeId ctx @ ''|'' @ boot_count_text (bootCount ctx)))"

definition expanded_key :: "crypto \<Rightarrow> bytes \<Rightarrow> bytes" where
  "expanded_key L key = (if length key = 64 then key else key @ seed_public_key L key)"

definition signed_message :: "crypto \<Rightarrow> auth_context \<Rightarrow> bytes \<Rightarrow> bytes" where
  "signed_message L ctx key =
     sign_detached L (signed_digest L ctx) (expanded_key L key) @ signed_digest L ctx"

text \<open>
  The standard base64 decoder, to read the header's blob back: the characters up to the
  first padding character, six bits for each one of the alphabet (or of the URL-safe
  alphabet).
\<close>

fun index_of :: "char \<Rightarrow> string \<Rightarrow> nat option" where
  "index_of c [] = None"
| "index_of c (x # xs) = (if c = x then Some 0 else map_option Suc (index_of c xs))"

definition sextet :: "char \<Rightarrow> nat option" where
  "sextet c =
     (if c = CHR ''-'' then Some 62 else if c = CHR ''_'' then Some 63 else index_of c base64_alphabet)"

fun decode_sextets :: "nat list \<Rightarrow> bytes" where
  "decode_sextets (a # b # c # d # rest) =
     [of_nat (a * 4 + b div 16), of_nat (b mod 16 * 16 + c div 4), of_nat (c mod 4 * 64 + d)]
       @ decode_sextets rest"
| "decode_sextets [a, b, c] = [of_nat (a * 4 + b div 16), of_nat (b mod 16 * 16 + c div 4)]"
| "decode_sextets [a, b] = [of_nat (a * 4 + b div 16)]"
| "decode_sextets rest = []"

definition decode_chars :: "string \<Rightarrow> nat list" where
  "decode_chars s = List.map_filter sextet (takeWhile (\<lambda>c. c \<noteq> CHR ''='') s)"

definition base64_decode_std :: "string \<Rightarrow> bytes" where
  "base64_decode_std s = decode_sextets (decode_chars s)"

text \<open>
  A path that some non-empty root admits by the comparison of \<open>isWithinRoot\<close>. The
  segments of a resolved path, and what it means for a path to lie in the directory tree
  of a root: the root's segments begin the path's segments. \<open>slashed\<close> writes a list
  of segments with a slash before each, and a segment is \<open>clean\<close> when resolution
  leaves it as it is.
\<close>

definition within_roots :: "fs_env \<Rightarrow> string \<Rightarrow> bool" where
  "within_roots E resolved =
     (\<exists>root \<in> set (SAFE_KEY_ROOTS E). root \<noteq> [] \<and> isWithinRoot E root resolved)"





definition slashed :: "string list \<Rightarrow> string" where
  "slashed segs = concat (map ((#) CHR ''/'') segs)"


section \<open>Example inputs\<close>

text \<open>
  The inputs of the repository's tests: a client for host \<open>example\<close>, fetch
  implementations that answer every call alike or only the \<open>/stellina/http\<close> prefix,
  and a platform whose URL constructor is applied to strings without query or fragment,
  whose \<open>response.json()\<close> accepts the bodies \<open>true\<close> and \<open>null\<close> and rejects the
  other bodies used here, whose \<open>response.text()\<close> reads ASCII, and whose
  \<open>JSON.stringify\<close> is written for null and the booleans, no example sending a JSON
  body. For the
  authorization header: stand-ins of the right lengths for SHA-512 and the Ed25519
  primitives, a working directory \<open>/home/user/project\<close> with the module installed
  below it, and a key file \<open>/etc/secret.key\<close> outside every permitted root, alone or
  beside a key file \<open>.auth_key\<close> in the working directory.
\<close>

definition plain_url :: "string \<Rightarrow> js_url option" where
  "plain_url s = Some \<lparr>url_prefix = s, url_query = [], searchParams = [], url_fragment = []\<rparr>"

definition ascii_decode :: "bytes \<Rightarrow> string" where
  "ascii_decode b = map (\<lambda>x. char_of (unat x)) b"

definition test_platform :: platform where
  "test_platform =
     \<lparr>newURL = plain_url,
      jsonStringify = (\<lambda>v. case v of
                         JNull \<Rightarrow> Inr (JStr ''null'')
                       | JBool b \<Rightarrow> Inr (JStr (if b then ''true'' else ''false''))
                       | _ \<Rightarrow> Inl (TypeError ''not serialised'')),
      jsonParse = (\<lambda>b. if b = utf8_encode ''true'' then Some (JBool True)
                        else if b = utf8_encode ''null'' then Some JNull else None),
      textDecode = ascii_decode\<rparr>"

definition test_client :: client where
  "test_client =
     \<lparr>host = ''example'', port = 8082, apiBasePath = ''/v1'', prefixes = [[], ''/stellina/http''],
      baseUrl = None\<rparr>"

definition test_world :: world where
  "test_world = \<lparr>calls = [], routesCache = None\<rparr>"

definition no_options :: request_options where
  "no_options = \<lparr>auth = None, params = None, jsonBody = JUndefined, req_body = JUndefined, headers = []\<rparr>"

definition text_response :: "nat \<Rightarrow> string \<Rightarrow> string \<Rightarrow> response" where
  "text_response st txt content =
     \<lparr>status = st, statusText = txt, contentType = Some ''text/plain'', body = utf8_encode content\<rparr>"

definition fetch_always :: "response \<Rightarrow> fetch_impl" where
  "fetch_always resp history url init = Inr resp"

definition fetch_stellina :: fetch_impl where
  "fetch_stellina history url init =
     (if js_includes url ''/stellina/http/v1/app/status'' then Inr (text_response 200 ''OK'' ''ok'')
      else Inr (text_response 404 ''Not Found'' ''no''))"

definition png_500 :: response where
  "png_500 = \<lparr>status = 500, statusText = ''Internal Server Error'',
      contentType = Some ''application/octet-stream'', body = png_signature\<rparr>"

definition bad_json_400 :: response where
  "bad_json_400 = \<lparr>status = 400, statusText = ''Bad Request'',
      contentType = Some ''application/json'', body = []\<rparr>"

definition no_download_options :: download_options where
  "no_download_options = \<lparr>dl_auth = None, dl_headers = [], dl_params = None\<rparr>"

definition cached_client :: client where
  "cached_client = test_client\<lparr>baseUrl := Some ''http://example:8082/v1''\<rparr>"

definition test_routes :: "js_error + route list" where
  "test_routes = Inr [\<lparr>operationId = ''appGetStatus'', route_method = ''GET'', route_path = ''/app/status''\<rparr>]"

definition test_crypto :: crypto where
  "test_crypto =
     \<lparr>sha512 = (\<lambda>m. replicate 64 (of_nat (length m))),
      sign_detached = (\<lambda>m k. replicate 64 (of_nat (length k))),
      seed_public_key = (\<lambda>s. replicate 32 0),
      base64_decode = base64_decode_std\<rparr>"

definition test_env :: fs_env where
  "test_env =
     \<lparr>cwd = ''/home/user/project'', homedir = ''/home/user'', tmpdir = ''/tmp'',
      dirname = ''/home/user/project/node_modules/vaonis/src'', env_key_file = None,
      existsSync = (\<lambda>p. p = ''/etc/secret.key''),
      readFileSync = (\<lambda>p. if p = ''/etc/secret.key'' then Some ''c2VjcmV0'' else None)\<rparr>"

definition test_context :: auth_context where
  "test_context = \<lparr>challenge = ''AYWJj'', telescopeId = ''scope'', bootCount = BootNumber (Decimal False 2 0)\<rparr>"

definition key_env :: fs_env where
  "key_env =
     test_env\<lparr>existsSync := (\<lambda>p. p = ''/etc/secret.key'' \<or> p = ''/home/user/project/.auth_key''),
              readFileSync := (\<lambda>p. if p = ''/home/user/project/.auth_key'' then Some (''AQID'' @ [CHR 0x0A])
                                    else if p = ''/etc/secret.key'' then Some ''c2VjcmV0'' else None)\<rparr>"

definition explicit_key_file :: auth_options where
  "explicit_key_file = \<lparr>keyMaterial = None, keyFile = Some ''/etc/secret.key''\<rparr>"

definition given_key :: "bytes \<Rightarrow> auth_options" where
  "given_key b = \<lparr>keyMaterial = Some (KeyBytes b), keyFile = None\<rparr>"

text \<open>
  For the query: the URL of the status route without a query, the object
  \<open>{toString: 1}\<close>, whose own property hides the inherited \<open>toString\<close>, an object
  without prototype (\<open>Object.create(null)\<close>), a fetch that answers every call with
  200, and options that carry only params. For the authorization header: options that
  name no key.
\<close>

definition example_url :: js_url where
  "example_url = \<lparr>url_prefix = ''http://example:8082/v1/app/status'', url_query = [], searchParams = [],
      url_fragment = []\<rparr>"

definition unprintable :: js_value where
  "unprintable = JObj [(''toString'', JNum (Decimal False 1 0))]"

definition no_prototype :: js_value where
  "no_prototype = JOther (Inl (TypeError ''Cannot convert object to primitive value''))"

definition ok_fetch :: fetch_impl where
  "ok_fetch = fetch_always (text_response 200 ''OK'' ''ok'')"

definition with_params :: "(string \<times> js_value) list \<Rightarrow> request_options" where
  "with_params entries = no_options\<lparr>params := Some entries\<rparr>"

definition download_params :: "(string \<times> js_value) list \<Rightarrow> download_options" where
  "download_params entries = no_download_options\<lparr>dl_params := Some entries\<rparr>"

definition no_key :: auth_options where
  "no_key = \<lparr>keyMaterial = None, keyFile = None\<rparr>"

section \<open>Lemmas on query serialisation\<close>

lemma jsToString_examples:
  "jsToString (JArr [JNum (Decimal False 1 0), JNull, JArr [JStr ''x'', JUndefined], JObj []]) =
     Inr ''1,,x,,[object Object]''"
  "jsToString (JObj [(''valueOf'', JNum (Decimal False 1 0))]) = Inr ''[object Object]''"
  "jsToString (JObj [(''toString'', JNum (Decimal False 1 0))]) =
     Inl (TypeError ''Cannot convert object to primitive value'')"
  "jsToString (JArr [JStr ''x'', JObj [(''toString'', JNull)]]) =
     Inl (TypeError ''Cannot convert object to primitive value'')"
  by code_simp+

lemma named_append: "named key (sp_append q k v) = named key q @ (if k = key then [(k, v)] else [])"
  by (simp add: named_def sp_append_def)

lemma named_replace_first_other: "k \<noteq> key \<Longrightarrow> named key (sp_replace_first q k v) = named key q"
proof (induction q)
  case Nil
  then show ?case by (simp add: named_def)
next
  case (Cons e q)
  have "filter (\<lambda>e. fst e = key) (filter (\<lambda>e'. fst e' \<noteq> k) q) = filter (\<lambda>e. fst e = key) q"
    using Cons.prems by (induction q) auto
  with Cons show ?case by (auto simp: named_def)
qed

lemma named_replace_first_same:
  "k \<in> set (map fst q) \<Longrightarrow> named k (sp_replace_first q k v) = [(k, v)]"
proof (induction q)
  case Nil
  then show ?case by simp
next
  case (Cons e q)
  have "filter (\<lambda>e. fst e = k) (filter (\<lambda>e'. fst e' \<noteq> k) q) = []"
    by (induction q) auto
  with Cons show ?case by (auto simp: named_def)
qed

lemma named_set: "named key (sp_set q k v) = (if k = key then [(k, v)] else named key q)"
proof (cases "k \<in> set (map fst q)")
  case True
  then show ?thesis
    using named_replace_first_same[of k q v] named_replace_first_other[of k key q v]
    by (auto simp: sp_set_def)
next
  case False
  then have "named k q = []"
    by (auto simp: named_def filter_empty_conv)
  with False show ?thesis
    by (auto simp: sp_set_def named_append)
qed

lemma searchParams_update_query [simp]: "searchParams (update_query url q) = q"
  by (simp add: update_query_def)

lemma update_query_twice [simp]: "update_query (update_query url q) q' = update_query url q'"
  by (simp add: update_query_def)

lemma update_query_fields [simp]:
  "url_prefix (update_query url q) = url_prefix url"
  "url_fragment (update_query url q) = url_fragment url"
  by (simp_all add: update_query_def)

lemma append_items_eq:
  "append_items url k items =
     (case item_strings items of
        Inl err \<Rightarrow> Inl err
      | Inr strings \<Rightarrow>
          Inr (if strings = [] then url else update_query url (searchParams url @ map (Pair k) strings)))"
proof (induction items arbitrary: url)
  case Nil
  then show ?case by simp
next
  case (Cons item items)
  show ?case
    by (simp add: Cons.IH searchParams_append_def sp_append_def split: sum.splits)
qed

lemma sp_set_not_Nil [simp]: "sp_set q k s \<noteq> []"
  by (cases q) (auto simp: sp_set_def sp_append_def)

lemma buildQuery_entry_eq:
  "buildQuery_entry url k v =
     (case entry_strings v of
        Inl err \<Rightarrow> Inl err
      | Inr strings \<Rightarrow>
          Inr (if strings = [] then url
               else update_query url (entry_pairs (searchParams url) k v strings)))"
  by (auto simp: buildQuery_entry_def entry_strings_def entry_pairs_def append_items_eq
      searchParams_set_def split: sum.splits)

lemma entry_strings_writes: "entry_strings v = Inr strings \<Longrightarrow> (strings \<noteq> []) = writes v"
proof (cases v)
  case (JArr items)
  assume "entry_strings v = Inr strings"
  with JArr have "item_strings items = Inr strings" by (simp add: entry_strings_def)
  then have "(strings = []) = (items = [])"
    by (cases items) (auto split: sum.splits)
  with JArr show ?thesis by (simp add: writes_def)
qed (auto simp: entry_strings_def writes_def split: sum.splits)

lemma entry_pairs_not_Nil: "strings \<noteq> [] \<Longrightarrow> entry_pairs q k v strings \<noteq> []"
  by (simp add: entry_pairs_def)

lemma buildQuery_loop_error:
  "(buildQuery_loop url entries = Inl err) = (conversion_error entries = Some err)"
proof (induction entries arbitrary: url)
  case Nil
  then show ?case by simp
next
  case (Cons e entries)
  obtain k v where e: "e = (k, v)" by (cases e)
  show ?case
    by (simp add: e buildQuery_entry_eq Cons.IH split: sum.splits)
qed

lemma buildQuery_loop_result:
  "buildQuery_loop url entries = Inr url' \<Longrightarrow>
     (if \<exists>e \<in> set entries. writes (snd e)
      then url' = update_query url (searchParams url') \<and> searchParams url' \<noteq> []
      else url' = url)"
proof (induction entries arbitrary: url)
  case Nil
  then show ?case by simp
next
  case (Cons e entries)
  obtain k v where e: "e = (k, v)" by (cases e)
  from Cons.prems e obtain strings where s: "entry_strings v = Inr strings"
    by (auto simp: buildQuery_entry_eq split: sum.splits)
  show ?case
  proof (cases "strings = []")
    case True
    with s have nw: "\<not> writes v" using entry_strings_writes by blast
    from Cons.prems e s True have "buildQuery_loop url entries = Inr url'"
      by (simp add: buildQuery_entry_eq)
    from Cons.IH[OF this] nw e show ?thesis by simp
  next
    case False
    with s have w: "writes v" using entry_strings_writes by blast
    define u where "u = update_query url (entry_pairs (searchParams url) k v strings)"
    from Cons.prems e s False have "buildQuery_loop u entries = Inr url'"
      by (simp add: buildQuery_entry_eq u_def)
    note ih = Cons.IH[OF this]
    show ?thesis
    proof (cases "\<exists>e \<in> set entries. writes (snd e)")
      case True
      with ih have "url' = update_query u (searchParams url')" "searchParams url' \<noteq> []"
        by simp_all
      then have "url' = update_query url (searchParams url')" "searchParams url' \<noteq> []"
        by (simp_all add: u_def)
      with w e show ?thesis by auto
    next
      case no: False
      with ih have eq: "url' = u"
        by simp
      then have "searchParams url' = entry_pairs (searchParams url) k v strings"
        by (simp add: u_def)
      with eq have "url' = update_query url (searchParams url')" "searchParams url' \<noteq> []"
        using entry_pairs_not_Nil[OF False] by (simp_all add: u_def)
      with w e show ?thesis by auto
    qed
  qed
qed


lemma named_entry_pairs:
  "named key (entry_pairs q k v strings) =
     (if k = key
      then (if isArray v then named key q @ map (Pair k) strings
            else if strings = [] then named key q else [(k, hd strings)])
      else named key q)"
  by (auto simp: entry_pairs_def named_set) (auto simp: named_def)

lemma named_entry:
  assumes "buildQuery_entry url k v = Inr url'"
  shows "\<exists>strings. entry_strings v = Inr strings
           \<and> named key (searchParams url') = named key (entry_pairs (searchParams url) k v strings)"
proof -
  from assms obtain strings where s: "entry_strings v = Inr strings"
    and u: "url' = (if strings = [] then url
                    else update_query url (entry_pairs (searchParams url) k v strings))"
    by (auto simp: buildQuery_entry_eq split: sum.splits)
  have "named key (searchParams url') = named key (entry_pairs (searchParams url) k v strings)"
    using u by (auto simp: entry_pairs_def)
  with s show ?thesis by blast
qed

lemma named_loop_absent:
  "key \<notin> set (map fst entries) \<Longrightarrow> buildQuery_loop url entries = Inr url' \<Longrightarrow>
     named key (searchParams url') = named key (searchParams url)"
proof (induction entries arbitrary: url)
  case Nil
  then show ?case by simp
next
  case (Cons e entries)
  obtain k v where e: "e = (k, v)" by (cases e)
  from Cons.prems e obtain u where u: "buildQuery_entry url k v = Inr u"
    and rest: "buildQuery_loop u entries = Inr url'"
    by (auto split: sum.splits)
  from Cons.prems e have "k \<noteq> key" by auto
  with named_entry[OF u, of key] have "named key (searchParams u) = named key (searchParams url)"
    by (auto simp: named_entry_pairs)
  with Cons.IH[OF _ rest] Cons.prems show ?case by simp
qed

lemma named_loop_present:
  "distinct (map fst entries) \<Longrightarrow> (key, v) \<in> set entries \<Longrightarrow>
   buildQuery_loop url entries = Inr url' \<Longrightarrow>
     \<exists>strings. entry_strings v = Inr strings
        \<and> named key (searchParams url') = named key (entry_pairs (searchParams url) key v strings)"
proof (induction entries arbitrary: url)
  case Nil
  then show ?case by simp
next
  case (Cons e entries)
  obtain k v' where e: "e = (k, v')" by (cases e)
  from Cons.prems e obtain u where u: "buildQuery_entry url k v' = Inr u"
    and rest: "buildQuery_loop u entries = Inr url'"
    by (auto split: sum.splits)
  show ?case
  proof (cases "k = key")
    case True
    with Cons.prems e have v: "v' = v" and absent: "key \<notin> set (map fst entries)"
      by (auto simp: image_iff)
    from named_loop_absent[OF absent rest] named_entry[OF u, of key] True v
    show ?thesis by auto
  next
    case False
    with Cons.prems e have "distinct (map fst entries)" "(key, v) \<in> set entries"
      by auto
    from Cons.IH[OF this rest] obtain strings where s: "entry_strings v = Inr strings"
      and n: "named key (searchParams url') = named key (entry_pairs (searchParams u) key v strings)"
      by blast
    from False named_entry[OF u, of key] have "named key (searchParams u) = named key (searchParams url)"
      by (auto simp: named_entry_pairs)
    with n have "named key (searchParams url') = named key (entry_pairs (searchParams url) key v strings)"
      by (simp add: named_entry_pairs)
    with s show ?thesis by blast
  qed
qed

lemma object_free_converts:
  "object_free v \<Longrightarrow> \<exists>s. jsToString v = Inr s"
  "list_all object_free items \<Longrightarrow> \<exists>strings. element_strings items = Inr strings"
  by (induction v and items rule: jsToString_element_strings.induct) auto

lemma object_free_items:
  "list_all object_free items \<Longrightarrow> \<exists>strings. item_strings items = Inr strings"
  by (induction items) (auto dest: object_free_converts(1))

lemma object_free_entry: "object_free v \<Longrightarrow> \<exists>strings. entry_strings v = Inr strings"
  by (cases v) (auto simp: entry_strings_def dest: object_free_items)

lemma object_free_no_error:
  "list_all (\<lambda>e. object_free (snd e)) entries \<Longrightarrow> conversion_error entries = None"
  by (induction entries) (auto dest: object_free_entry)

lemma buildQuery_loop_success:
  "conversion_error entries = None \<Longrightarrow> \<exists>url'. buildQuery_loop url entries = Inr url'"
  using buildQuery_loop_error[of url entries] by (cases "buildQuery_loop url entries") auto

lemma join_not_Nil: "segs \<noteq> [] \<Longrightarrow> \<forall>seg \<in> set segs. seg \<noteq> [] \<Longrightarrow> join sep segs \<noteq> []"
  by (induction sep segs rule: join.induct) auto

lemma serialize_pair_not_Nil [simp]: "serialize_pair e \<noteq> []"
  by (simp add: serialize_pair_def)

lemma sp_toString_not_Nil: "q \<noteq> [] \<Longrightarrow> sp_toString q \<noteq> []"
  unfolding sp_toString_def by (rule join_not_Nil) auto

lemma url_query_update: "q \<noteq> [] \<Longrightarrow> url_query (update_query url q) = CHR ''?'' # sp_toString q"
  by (simp add: update_query_def Let_def sp_toString_not_Nil)

lemma hex_char_not_amp: "d < 16 \<Longrightarrow> hex_char d \<noteq> CHR ''&''"
proof -
  assume "d < 16"
  then have "hex_char d \<in> set ''0123456789ABCDEF''"
    unfolding hex_char_def by (intro nth_mem) simp
  then show ?thesis by auto
qed

lemma percent_byte_no_amp: "CHR ''&'' \<notin> set (percent_byte b)"
proof -
  have "unat b < 256" using unsigned_less[of b] by simp
  then have "unat b div 16 < 16" "unat b mod 16 < 16" by auto
  then have "hex_char (unat b div 16) \<noteq> CHR ''&''" "hex_char (unat b mod 16) \<noteq> CHR ''&''"
    by (simp_all add: hex_char_not_amp)
  then show ?thesis by (auto simp: percent_byte_def)
qed

lemma urlencoded_char_no_amp: "CHR ''&'' \<notin> set (urlencoded_char c)"
  by (auto simp: urlencoded_char_def Let_def percent_byte_no_amp)

lemma urlencoded_no_amp: "CHR ''&'' \<notin> set (urlencoded s)"
  by (auto simp: urlencoded_def urlencoded_char_no_amp)

lemma serialize_pair_no_amp: "CHR ''&'' \<notin> set (serialize_pair e)"
  by (simp add: serialize_pair_def urlencoded_no_amp)

lemma split_on_no_separator: "sep \<notin> set s \<Longrightarrow> split_on sep s = [s]"
  by (induction s) auto

lemma split_on_first: "sep \<notin> set s \<Longrightarrow> split_on sep (s @ sep # t) = s # split_on sep t"
  by (induction s) auto

lemma split_on_join:
  "segs \<noteq> [] \<Longrightarrow> \<forall>seg \<in> set segs. sep \<notin> set seg \<Longrightarrow> split_on sep (join [sep] segs) = segs"
  by (induction "[sep]" segs rule: join.induct) (auto simp: split_on_no_separator split_on_first)

lemma query_entries_update:
  "q \<noteq> [] \<Longrightarrow> query_entries (update_query url q) = map serialize_pair q"
proof -
  assume q: "q \<noteq> []"
  have "split_on CHR ''&'' (join ''&'' (map serialize_pair q)) = map serialize_pair q"
    using q by (intro split_on_join) (auto simp: serialize_pair_no_amp)
  with q show ?thesis
    by (simp add: query_entries_def url_query_update sp_toString_def)
qed

lemma buildQuery_error:
  "(buildQuery url (Some entries) = Inl err) = (conversion_error entries = Some err)"
  by (simp add: buildQuery_def buildQuery_loop_error)

lemma item_strings_map:
  "(item_strings items = Inr strings) = (map jsToString items = map Inr strings)"
proof (induction items arbitrary: strings)
  case Nil
  then show ?case by auto
next
  case (Cons item items)
  show ?case
  proof (cases strings)
    case Nil
    then show ?thesis by (auto split: sum.splits)
  next
    case (Cons s rest)
    have "(item_strings items = Inr rest) = (map jsToString items = map Inr rest)"
      by (rule Cons.IH)
    with Cons show ?thesis by (cases "item_strings items") (auto split: sum.splits)
  qed
qed

lemma item_strings_error:
  "(\<exists>err. item_strings items = Inl err) = (\<exists>item \<in> set items. isl (jsToString item))"
  by (induction items) (auto split: sum.splits simp: isl_def)

lemma entry_strings_error:
  "(\<exists>err. entry_strings v = Inl err) =
     (if isArray v then \<exists>item \<in> set (array_items v). isl (jsToString item)
      else v \<noteq> JUndefined \<and> v \<noteq> JNull \<and> isl (jsToString v))"
  using item_strings_error[of "array_items v"]
  by (auto simp: entry_strings_def isl_def split: sum.splits)

lemma conversion_error_exists:
  "(\<exists>err. conversion_error entries = Some err) = (\<exists>e \<in> set entries. \<exists>err. entry_strings (snd e) = Inl err)"
  by (induction entries) (auto split: sum.splits)

lemma url_toString_update:
  "q \<noteq> [] \<Longrightarrow> url_toString (update_query url q) = url_prefix url @ CHR ''?'' # sp_toString q @ url_fragment url"
  by (simp add: url_toString_def url_query_update)

lemma buildQuery_written:
  assumes "buildQuery url (Some entries) = Inr url'" and "(key, v) \<in> set entries" and "writes v"
  shows "url_toString url' = url_prefix url @ CHR ''?'' # sp_toString (searchParams url') @ url_fragment url"
    and "query_entries url' = map serialize_pair (searchParams url')"
proof -
  from assms have "\<exists>e \<in> set entries. writes (snd e)" by force
  with assms(1) buildQuery_loop_result[of url entries url']
  have u: "url' = update_query url (searchParams url')" and n: "searchParams url' \<noteq> []"
    by (simp_all add: buildQuery_def)
  show "url_toString url' = url_prefix url @ CHR ''?'' # sp_toString (searchParams url') @ url_fragment url"
    using url_toString_update[OF n, of url] u by simp
  show "query_entries url' = map serialize_pair (searchParams url')"
    using query_entries_update[OF n, of url] u by simp
qed

lemma buildQuery_unwritten:
  "buildQuery url (Some entries) = Inr url' \<Longrightarrow> \<forall>e \<in> set entries. \<not> writes (snd e) \<Longrightarrow> url' = url"
  using buildQuery_loop_result[of url entries url'] by (auto simp: buildQuery_def)

section \<open>Lemmas on the HTTP client\<close>

lemma detect_loop_step_fail:
  "\<not> probe_ok fetchImpl (calls w) c p \<Longrightarrow>
     detect_loop fetchImpl c w (p # rest) =
       detect_loop fetchImpl c (w\<lparr>calls := calls w @ [probe_call c p]\<rparr>) rest"
  by (simp add: probe_ok_def probe_call_def probe_init_def fetchWithTimeout_def Let_def split: sum.splits)

lemma detect_loop_step_ok:
  "probe_ok fetchImpl (calls w) c p \<Longrightarrow>
     detect_loop fetchImpl c w (p # rest) =
       (Inr (makeBaseUrl c p), c\<lparr>baseUrl := Some (makeBaseUrl c p)\<rparr>,
        w\<lparr>calls := calls w @ [probe_call c p]\<rparr>)"
  by (simp add: probe_ok_def probe_call_def probe_init_def fetchWithTimeout_def Let_def split: sum.splits)

declare detect_loop.simps(2) [simp del]

lemma detect_loop_first_success:
  "(\<And>k. k < length ps \<Longrightarrow>
        \<not> probe_ok fetchImpl (calls w @ map (probe_call c) (take k ps)) c (ps ! k)) \<Longrightarrow>
   probe_ok fetchImpl (calls w @ map (probe_call c) ps) c p \<Longrightarrow>
   detect_loop fetchImpl c w (ps @ p # rest) =
     (Inr (makeBaseUrl c p), c\<lparr>baseUrl := Some (makeBaseUrl c p)\<rparr>,
      w\<lparr>calls := calls w @ map (probe_call c) (ps @ [p])\<rparr>)"
proof (induction ps arbitrary: w)
  case Nil
  then show ?case by (simp add: detect_loop_step_ok)
next
  case (Cons q qs)
  let ?w1 = "w\<lparr>calls := calls w @ [probe_call c q]\<rparr>"
  have first: "\<not> probe_ok fetchImpl (calls w) c q"
    using Cons.prems(1)[of 0] by simp
  have later: "\<And>k. k < length qs \<Longrightarrow>
      \<not> probe_ok fetchImpl (calls ?w1 @ map (probe_call c) (take k qs)) c (qs ! k)"
    using Cons.prems(1)[of "Suc k" for k] by simp
  have hit: "probe_ok fetchImpl (calls ?w1 @ map (probe_call c) qs) c p"
    using Cons.prems(2) by simp
  have "detect_loop fetchImpl c w ((q # qs) @ p # rest) = detect_loop fetchImpl c ?w1 (qs @ p # rest)"
    using first by (simp add: detect_loop_step_fail)
  also have "\<dots> = (Inr (makeBaseUrl c p), c\<lparr>baseUrl := Some (makeBaseUrl c p)\<rparr>,
      ?w1\<lparr>calls := calls ?w1 @ map (probe_call c) (qs @ [p])\<rparr>)"
    using later hit by (rule Cons.IH)
  finally show ?case by simp
qed

lemma detect_loop_none:
  "(\<And>k. k < length ps \<Longrightarrow>
        \<not> probe_ok fetchImpl (calls w @ map (probe_call c) (take k ps)) c (ps ! k)) \<Longrightarrow>
   detect_loop fetchImpl c w ps =
     (Inl BaseUrlNotDetected, c, w\<lparr>calls := calls w @ map (probe_call c) ps\<rparr>)"
proof (induction ps arbitrary: w)
  case Nil
  then show ?case by simp
next
  case (Cons q qs)
  let ?w1 = "w\<lparr>calls := calls w @ [probe_call c q]\<rparr>"
  have first: "\<not> probe_ok fetchImpl (calls w) c q"
    using Cons.prems(1)[of 0] by simp
  have later: "\<And>k. k < length qs \<Longrightarrow>
      \<not> probe_ok fetchImpl (calls ?w1 @ map (probe_call c) (take k qs)) c (qs ! k)"
    using Cons.prems(1)[of "Suc k" for k] by simp
  have "detect_loop fetchImpl c w (q # qs) = detect_loop fetchImpl c ?w1 qs"
    using first by (simp add: detect_loop_step_fail)
  also have "\<dots> = (Inl BaseUrlNotDetected, c, ?w1\<lparr>calls := calls ?w1 @ map (probe_call c) qs\<rparr>)"
    using later by (rule Cons.IH)
  finally show ?case by simp
qed

lemma declares_image_empty: "declares_image (Some []) = False"
  by (simp add: declares_image_def startsWith_def toLowerCase_def)

lemma content_type_check:
  "(header_or_empty ct \<noteq> [] \<and> startsWith (toLowerCase (header_or_empty ct)) ''image/'')
     = declares_image ct"
  by (cases ct) (auto simp: header_or_empty_def declares_image_def startsWith_def toLowerCase_def)

lemma jpeg_check:
  "4 \<le> length b \<Longrightarrow>
     (b ! 0 = 0xff \<and> b ! 1 = 0xd8 \<and> b ! 2 = 0xff) = startsWith b [0xff, 0xd8, 0xff]"
proof -
  assume "4 \<le> length b"
  then obtain x0 x1 x2 x3 r where b: "b = x0 # x1 # x2 # x3 # r"
    by (cases b; cases "tl b"; cases "tl (tl b)"; cases "tl (tl (tl b))") auto
  show ?thesis by (simp add: b startsWith_def)
qed

lemma take_startsWith: "n = length sig \<Longrightarrow> (take n b = sig) = startsWith b sig"
  by (simp add: startsWith_def)

lemma slice_checks:
  "(take 8 b = png_signature) = startsWith b png_signature"
  "(take 2 b = utf8_encode ''BM'') = startsWith b (utf8_encode ''BM'')"
  "(take 6 b = utf8_encode ''GIF87a'') = startsWith b (utf8_encode ''GIF87a'')"
  "(take 6 b = utf8_encode ''GIF89a'') = startsWith b (utf8_encode ''GIF89a'')"
  "(take 4 b = [0x49, 0x49, 0x2a, 0x00]) = startsWith b [0x49, 0x49, 0x2a, 0x00]"
  "(take 4 b = [0x4d, 0x4d, 0x00, 0x2a]) = startsWith b [0x4d, 0x4d, 0x00, 0x2a]"
  "(take 4 b = utf8_encode ''RIFF'') = startsWith b (utf8_encode ''RIFF'')"
  by (rule take_startsWith, simp add: png_signature_def utf8_encode_def utf8_char_def)+

lemma webp_check:
  "(12 \<le> length b \<and> startsWith b (utf8_encode ''RIFF'') \<and> take 4 (drop 8 b) = utf8_encode ''WEBP'')
     = (startsWith b (utf8_encode ''RIFF'') \<and> take 4 (drop 8 b) = utf8_encode ''WEBP'')"
proof -
  have "12 \<le> length b" if "take 4 (drop 8 b) = utf8_encode ''WEBP''"
  proof -
    from that have "length (take 4 (drop 8 b)) = 4"
      by (simp add: utf8_encode_def utf8_char_def)
    then show ?thesis by simp
  qed
  then show ?thesis by blast
qed

lemma looksLikeImage_long:
  "4 \<le> length b \<Longrightarrow>
     looksLikeImage b (header_or_empty ct) = (declares_image ct \<or> matches_image_signature b)"
proof -
  assume len: "4 \<le> length b"
  then have short: "(length b < 4) = False" by simp
  have "looksLikeImage b (header_or_empty ct) =
      (if declares_image ct then True
       else if startsWith b [0xff, 0xd8, 0xff] then True
       else if startsWith b png_signature then True
       else if startsWith b (utf8_encode ''BM'') then True
       else if startsWith b (utf8_encode ''GIF87a'') \<or> startsWith b (utf8_encode ''GIF89a'') then True
       else if startsWith b [0x49, 0x49, 0x2a, 0x00] \<or> startsWith b [0x4d, 0x4d, 0x00, 0x2a] then True
       else if startsWith b (utf8_encode ''RIFF'') \<and> take 4 (drop 8 b) = utf8_encode ''WEBP'' then True
       else False)"
    unfolding looksLikeImage_def
    by (simp only: content_type_check short jpeg_check[OF len] slice_checks webp_check if_False)
  also have "\<dots> = (declares_image ct \<or> matches_image_signature b)"
    unfolding matches_image_signature_def by (simp only: if_bool_eq_disj) blast
  finally show ?thesis .
qed

lemma looksLikeImage_short:
  "length b < 4 \<Longrightarrow> looksLikeImage b (header_or_empty ct) = declares_image ct"
  using declares_image_empty
  by (cases ct) (auto simp: looksLikeImage_def header_or_empty_def declares_image_def)

lemma looksLikeImage_iff:
  "looksLikeImage b (header_or_empty ct) =
     (declares_image ct \<or> (4 \<le> length b \<and> matches_image_signature b))"
  using looksLikeImage_long[of b ct] looksLikeImage_short[of b ct]
  by (cases "4 \<le> length b") auto

lemma dropWhile_append_keep:
  "ys \<noteq> [] \<Longrightarrow> \<not> P (hd ys) \<Longrightarrow> dropWhile P (xs @ ys) = dropWhile P xs @ ys"
  by (induction xs) (auto simp: neq_Nil_conv)

lemma digit_not_whitespace: "d < 10 \<Longrightarrow> \<not> js_whitespace (digit_char d)"
proof -
  assume "d < 10"
  then have "d \<in> {0, 1, 2, 3, 4, 5, 6, 7, 8, 9}" by auto
  then show ?thesis
    by (auto simp: digit_char_def js_whitespace_def)
qed

lemma nat_to_string_last:
  "nat_to_string n \<noteq> [] \<and> last (nat_to_string n) = digit_char (n mod 10)"
  by (induction n rule: nat_to_string.induct) (subst (1 2) nat_to_string.simps, simp)

lemma http_message_prefix:
  "startsWith (http_error_message st txt msg) (''HTTP '' @ nat_to_string st)"
proof -
  let ?d = "nat_to_string st"
  let ?rest = "'' '' @ txt @ '' '' @ msg"
  let ?s = "''HTTP '' @ ?d @ ?rest"
  have lead: "dropWhile js_whitespace ?s = ?s"
    by (simp add: js_whitespace_def)
  have d: "?d \<noteq> []" "\<not> js_whitespace (last ?d)"
    using nat_to_string_last[of st] by (simp_all add: digit_not_whitespace)
  then have "rev ?d @ rev ''HTTP '' \<noteq> []" "\<not> js_whitespace (hd (rev ?d @ rev ''HTTP ''))"
    by (simp_all add: hd_rev)
  then have "dropWhile js_whitespace (rev ?rest @ (rev ?d @ rev ''HTTP '')) =
      dropWhile js_whitespace (rev ?rest) @ (rev ?d @ rev ''HTTP '')"
    by (rule dropWhile_append_keep)
  then have "js_trim ?s = ''HTTP '' @ ?d @ rev (dropWhile js_whitespace (rev ?rest))"
    unfolding js_trim_def lead by simp
  then show ?thesis
    by (simp add: startsWith_def http_error_message_def)
qed

lemma js_trim_trailing_space: "js_trim (s @ '' '') = js_trim s"
proof (cases "\<forall>x \<in> set s. js_whitespace x")
  case True
  have sp: "js_whitespace CHR '' ''"
    by (simp add: js_whitespace_def)
  have a: "dropWhile js_whitespace s = []"
    using True by (simp add: dropWhile_eq_Nil_conv)
  have b: "dropWhile js_whitespace (s @ '' '') = []"
    using True sp by (simp add: dropWhile_eq_Nil_conv)
  show ?thesis unfolding js_trim_def a b ..
next
  case False
  then obtain x where "x \<in> set s" "\<not> js_whitespace x" by blast
  then have "dropWhile js_whitespace (s @ '' '') = dropWhile js_whitespace s @ '' ''"
    by (rule dropWhile_append1)
  then show ?thesis by (simp add: js_trim_def js_whitespace_def)
qed

lemma download_error_message:
  "http_error_message st txt [] = js_trim (''HTTP '' @ nat_to_string st @ '' '' @ txt)"
  using js_trim_trailing_space[of "''HTTP '' @ nat_to_string st @ '' '' @ txt"]
  by (simp add: http_error_message_def)

lemma loadRoutes_calls: "loadRoutes routesFile w = (r, w') \<Longrightarrow> calls w' = calls w"
  by (auto simp: loadRoutes_def Let_def split: option.splits sum.splits)

lemma request_query_error:
  "resolve_base fetchImpl c w = (Inr base, c', w') \<Longrightarrow> newURL P (request_url base p) = Some url0 \<Longrightarrow>
   buildQuery url0 (params opts) = Inl err \<Longrightarrow>
     request P fetchImpl c w meth p opts = (Inl err, c', w')"
  by (simp add: request_def request_fetch_def)

lemma request_query_call:
  "resolve_base fetchImpl c w = (Inr base, c', w') \<Longrightarrow> newURL P (request_url base p) = Some url0 \<Longrightarrow>
   buildQuery url0 (params opts) = Inr url' \<Longrightarrow>
   (if jsonBody opts \<noteq> JUndefined then jsonStringify P (jsonBody opts) else Inr (req_body opts)) = Inr sent \<Longrightarrow>
     \<exists>hdrs. calls (snd (snd (request P fetchImpl c w meth p opts))) =
        calls w' @ [(url_toString url', \<lparr>fi_method = meth, fi_headers = hdrs, fi_body = sent\<rparr>)]"
  by (auto simp: request_def request_fetch_def fetchWithTimeout_def Let_def split: sum.splits)

lemma downloadImage_query_error:
  "resolve_base fetchImpl c w = (Inr base, c', w') \<Longrightarrow>
   newURL P (if startsWith urlOrPath ''http://'' \<or> startsWith urlOrPath ''https://''
             then urlOrPath else request_url base urlOrPath) = Some url0 \<Longrightarrow>
   buildQuery url0 (dl_params opts) = Inl err \<Longrightarrow>
     downloadImage P fetchImpl c w urlOrPath opts = (Inl err, c', w')"
  by (simp add: downloadImage_def downloadImage_fetch_def)

lemma downloadImage_query_call:
  "resolve_base fetchImpl c w = (Inr base, c', w') \<Longrightarrow>
   newURL P (if startsWith urlOrPath ''http://'' \<or> startsWith urlOrPath ''https://''
             then urlOrPath else request_url base urlOrPath) = Some url0 \<Longrightarrow>
   buildQuery url0 (dl_params opts) = Inr url' \<Longrightarrow>
     \<exists>init. calls (snd (snd (downloadImage P fetchImpl c w urlOrPath opts))) =
        calls w' @ [(url_toString url', init)]"
  by (auto simp: downloadImage_def downloadImage_fetch_def fetchWithTimeout_def Let_def split: sum.splits)

section \<open>Lemmas on the authorization header and the key path\<close>

lemma first_root_iff: "first_root E roots resolved = (\<exists>root \<in> set roots. root \<noteq> [] \<and> isWithinRoot E root resolved)"
  by (induction roots) auto

lemma normalizeKeyPath_cases:
  "normalizeKeyPath E v =
     (if within_roots E (path_resolve E [v]) then Inr (path_resolve E [v])
      else Inl (PathNotAllowed (path_resolve E [v])))"
  by (simp add: normalizeKeyPath_def within_roots_def first_root_iff Let_def)






lemma findKeyPath_loop_some:
  "findKeyPath_loop E cs = (Some p, ops) \<Longrightarrow>
     \<exists>c \<in> set cs. c \<noteq> [] \<and> existsSync E c \<and> p = path_resolve E [c] \<and> within_roots E p"
  by (induction cs arbitrary: ops) (auto simp: normalizeKeyPath_cases split: prod.splits if_splits)

lemma base64_encode_length: "length (base64_encode bs) = 4 * ((length bs + 2) div 3)"
proof (induction bs rule: base64_encode.induct)
  case (4 a b c rest)
  have "(length rest + 5) div 3 = Suc ((length rest + 2) div 3)" by arith
  with 4 show ?case by (simp add: add.commute)
qed simp_all

lemma signDigest_64:
  "crypto_ok L \<Longrightarrow> length keyBytes = 64 \<Longrightarrow>
     signDigest L digest keyBytes = Inr (sign_detached L digest keyBytes @ digest)"
  by (simp add: signDigest_def nacl_sign_def)

lemma signDigest_32:
  "crypto_ok L \<Longrightarrow> length keyBytes = 32 \<Longrightarrow>
     signDigest L digest keyBytes =
       Inr (sign_detached L digest (keyBytes @ seed_public_key L keyBytes) @ digest)"
  by (simp add: signDigest_def nacl_sign_def keyPair_fromSeed_def crypto_ok_def)

lemma signDigest_other:
  "length keyBytes \<noteq> 64 \<Longrightarrow> length keyBytes \<noteq> 32 \<Longrightarrow>
     signDigest L digest keyBytes = Inl (UnsupportedKeyLength (length keyBytes))"
  by (simp add: signDigest_def)

lemma resolveKeyMaterial_given:
  "keyMaterial opts = Some km \<Longrightarrow> resolveKeyMaterial E L opts = (Inr (key_bytes L km), [])"
  by (cases km) (simp_all add: resolveKeyMaterial_def key_bytes_def)

lemma test_crypto_ok: "crypto_ok test_crypto"
  by (simp add: crypto_ok_def test_crypto_def)

section \<open>Lemmas on base64 and on resolved paths\<close>

lemma sextet_table: "list_all (\<lambda>i. sextet (b64 i) = Some i \<and> b64 i \<noteq> CHR ''='') [0..<64]"
  by code_simp

lemma sextet_b64: "i < 64 \<Longrightarrow> sextet (b64 i) = Some i"
  using sextet_table by (simp add: list_all_iff)

lemma b64_not_pad: "i < 64 \<Longrightarrow> b64 i \<noteq> CHR ''=''"
  using sextet_table by (simp add: list_all_iff)

lemma sextet_pad: "sextet CHR ''='' = None"
  by code_simp

lemma byte_bound: "unat (a :: byte) < 256"
  using unsigned_less[of a] by simp

lemma sextet_bounds_nat:
  "x < 256 \<Longrightarrow> y < 256 \<Longrightarrow> z < 256 \<Longrightarrow>
     x div 4 < (64::nat) \<and> x mod 4 * 16 + y div 16 < 64 \<and> y mod 16 * 4 + z div 64 < 64 \<and> z mod 64 < 64
     \<and> x mod 4 * 16 < 64 \<and> y mod 16 * 4 < 64"
  by auto

lemma sextet_bounds:
  "unat (a :: byte) div 4 < 64"
  "unat (a :: byte) mod 4 * 16 + unat (b :: byte) div 16 < 64"
  "unat (b :: byte) mod 16 * 4 + unat (c :: byte) div 64 < 64"
  "unat (c :: byte) mod 64 < 64"
  "unat (a :: byte) mod 4 * 16 < 64"
  "unat (b :: byte) mod 16 * 4 < 64"
  using sextet_bounds_nat[OF byte_bound[of a] byte_bound[of b] byte_bound[of c]] by blast+

lemma regroup1: "x < 256 \<Longrightarrow> y < 256 \<Longrightarrow> x div 4 * 4 + (x mod 4 * 16 + y div 16) div 16 = (x::nat)"
  by auto

lemma regroup2: "y < 256 \<Longrightarrow> z < 256 \<Longrightarrow>
   (x mod 4 * 16 + y div 16) mod 16 * 16 + (y mod 16 * 4 + z div 64) div 4 = (y::nat)"
  by auto

lemma regroup3: "z < 256 \<Longrightarrow> (y mod 16 * 4 + z div 64) mod 4 * 64 + z mod 64 = (z::nat)"
  by auto

lemma regroup1_pad: "x < 256 \<Longrightarrow> x div 4 * 4 + (x mod 4 * 16) div 16 = (x::nat)"
  by auto

lemma regroup2_pad: "y < 256 \<Longrightarrow> (x mod 4 * 16 + y div 16) mod 16 * 16 + (y mod 16 * 4) div 4 = (y::nat)"
  by auto

lemma decode_chars_b64:
  "i < 64 \<Longrightarrow> decode_chars (b64 i # s) = i # decode_chars s"
  by (simp add: decode_chars_def List.map_filter_simps sextet_b64 b64_not_pad)

lemma decode_chars_pad: "decode_chars (CHR ''='' # s) = []"
  by (simp add: decode_chars_def List.map_filter_simps)

lemma decode_chars_nil: "decode_chars [] = []"
  by (simp add: decode_chars_def List.map_filter_simps)

lemma decode_group:
  "decode_sextets (decode_chars (base64_encode (a # b # c # rest))) =
     [a, b, c] @ decode_sextets (decode_chars (base64_encode rest))"
proof -
  define i1 i2 i3 i4 where "i1 = unat a div 4" and "i2 = unat a mod 4 * 16 + unat b div 16"
    and "i3 = unat b mod 16 * 4 + unat c div 64" and "i4 = unat c mod 64"
  have bounds: "i1 < 64" "i2 < 64" "i3 < 64" "i4 < 64"
    by (simp_all only: i1_def i2_def i3_def i4_def sextet_bounds)
  have enc: "base64_encode (a # b # c # rest) = b64 i1 # b64 i2 # b64 i3 # b64 i4 # base64_encode rest"
    by (simp add: i1_def i2_def i3_def i4_def)
  have chars: "decode_chars (base64_encode (a # b # c # rest)) =
      i1 # i2 # i3 # i4 # decode_chars (base64_encode rest)"
    by (simp only: enc decode_chars_b64 bounds)
  have vals: "i1 * 4 + i2 div 16 = unat a" "i2 mod 16 * 16 + i3 div 4 = unat b" "i3 mod 4 * 64 + i4 = unat c"
    using regroup1[OF byte_bound[of a] byte_bound[of b]] regroup2[OF byte_bound[of b] byte_bound[of c], of "unat a"]
      regroup3[OF byte_bound[of c], of "unat b"]
    by (simp_all only: i1_def i2_def i3_def i4_def)
  show ?thesis
    by (simp only: chars decode_sextets.simps vals) simp
qed

lemma decode_one:
  "decode_sextets (decode_chars (base64_encode [a])) = [a]"
proof -
  define i1 i2 where "i1 = unat a div 4" and "i2 = unat a mod 4 * 16"
  have bounds: "i1 < 64" "i2 < 64"
    by (simp_all only: i1_def i2_def sextet_bounds)
  have enc: "base64_encode [a] = b64 i1 # b64 i2 # CHR ''='' # [CHR ''='']"
    by (simp add: i1_def i2_def)
  have chars: "decode_chars (base64_encode [a]) = [i1, i2]"
    by (simp only: enc decode_chars_b64 bounds decode_chars_pad)
  have vals: "i1 * 4 + i2 div 16 = unat a"
    using regroup1_pad[OF byte_bound[of a]]
    by (simp only: i1_def i2_def)
  show ?thesis
    by (simp only: chars decode_sextets.simps vals) simp
qed

lemma decode_two:
  "decode_sextets (decode_chars (base64_encode [a, b])) = [a, b]"
proof -
  define i1 i2 i3 where "i1 = unat a div 4" and "i2 = unat a mod 4 * 16 + unat b div 16"
    and "i3 = unat b mod 16 * 4"
  have bounds: "i1 < 64" "i2 < 64" "i3 < 64"
    by (simp_all only: i1_def i2_def i3_def sextet_bounds)
  have enc: "base64_encode [a, b] = b64 i1 # b64 i2 # b64 i3 # [CHR ''='']"
    by (simp add: i1_def i2_def i3_def)
  have chars: "decode_chars (base64_encode [a, b]) = [i1, i2, i3]"
    by (simp only: enc decode_chars_b64 bounds decode_chars_pad)
  have vals: "i1 * 4 + i2 div 16 = unat a" "i2 mod 16 * 16 + i3 div 4 = unat b"
    using regroup1[OF byte_bound[of a] byte_bound[of b]] regroup2_pad[OF byte_bound[of b], of "unat a"]
    by (simp_all only: i1_def i2_def i3_def)
  show ?thesis
    by (simp only: chars decode_sextets.simps vals) simp
qed

lemma base64_roundtrip: "base64_decode_std (base64_encode bs) = bs"
proof -
  have "decode_sextets (decode_chars (base64_encode bs)) = bs"
  proof (induction bs rule: base64_encode.induct)
    case 1
    then show ?case by (simp add: decode_chars_nil)
  next
    case (2 a)
    show ?case by (rule decode_one)
  next
    case (3 a b)
    show ?case by (rule decode_two)
  next
    case (4 a b c rest)
    then show ?case by (simp only: decode_group) simp
  qed
  then show ?thesis by (simp add: base64_decode_std_def)
qed



lemma split_on_nonempty: "split_on c s \<noteq> []"
  by (induction s) (auto split: list.splits)




lemma slashed_Nil [simp]: "slashed [] = []"
  by (simp add: slashed_def)


lemma slashed_append [simp]: "slashed (xs @ ys) = slashed xs @ slashed ys"
  by (simp add: slashed_def)

















section \<open>Lemmas on key resolution\<close>






lemma buildAuthorizationHeader_resolved:
  "fst (resolveKeyMaterial E L opts) = Inr key \<Longrightarrow>
     buildAuthorizationHeader E L ctx opts =
       ((case buildPayload L ctx of
           Inl err \<Rightarrow> Inl err
         | Inr payload \<Rightarrow>
             (case signDigest L (sha512 L payload) key of
                Inl err \<Rightarrow> Inl err
              | Inr signedMessage \<Rightarrow>
                  Inr (''Basic android|'' @ [challenge ctx ! 0] @ ''|'' @ base64_encode signedMessage))),
        snd (resolveKeyMaterial E L opts))"
  by (cases "resolveKeyMaterial E L opts")
    (auto simp: buildAuthorizationHeader_def Let_def split: sum.splits)

lemma findKeyPath_loop_trace:
  "\<exists>n. snd (findKeyPath_loop E cands) = map ExistsSync (take n (filter (\<lambda>p. p \<noteq> []) cands))"
proof (induction cands)
  case Nil
  then show ?case by simp
next
  case (Cons c cands)
  then obtain n where n: "snd (findKeyPath_loop E cands) = map ExistsSync (take n (filter (\<lambda>p. p \<noteq> []) cands))"
    by blast
  show ?case
  proof (cases "c = []")
    case True
    with n show ?thesis by auto
  next
    case False
    show ?thesis
    proof (cases "existsSync E c \<and> (\<exists>r. normalizeKeyPath E c = Inr r)")
      case True
      with False have "snd (findKeyPath_loop E (c # cands)) =
          map ExistsSync (take 1 (filter (\<lambda>p. p \<noteq> []) (c # cands)))"
        by auto
      then show ?thesis by blast
    next
      case no: False
      with False n have "snd (findKeyPath_loop E (c # cands)) =
          map ExistsSync (take (Suc n) (filter (\<lambda>p. p \<noteq> []) (c # cands)))"
        by (auto split: sum.splits prod.splits)
      then show ?thesis by blast
    qed
  qed
qed

lemma resolveKeyMaterial_trace:
  "\<exists>n reads. snd (resolveKeyMaterial E L opts) =
       map ExistsSync (take n (filter (\<lambda>p. p \<noteq> []) (key_candidates E (keyFile opts)))) @ reads
     \<and> (reads = [] \<or> (\<exists>p. reads = [ReadFileSync p]))"
proof (cases "keyMaterial opts")
  case (Some km)
  then have "snd (resolveKeyMaterial E L opts) =
      map ExistsSync (take 0 (filter (\<lambda>p. p \<noteq> []) (key_candidates E (keyFile opts)))) @ []"
    by (simp add: resolveKeyMaterial_def)
  then show ?thesis by blast
next
  case None
  obtain n where n: "snd (findKeyPath_loop E (key_candidates E (keyFile opts))) =
      map ExistsSync (take n (filter (\<lambda>p. p \<noteq> []) (key_candidates E (keyFile opts))))"
    using findKeyPath_loop_trace by blast
  obtain r ops where f: "findKeyPath_loop E (key_candidates E (keyFile opts)) = (r, ops)"
    by (cases "findKeyPath_loop E (key_candidates E (keyFile opts))")
  show ?thesis
  proof (cases r)
    case nopath: None
    with None f n have "snd (resolveKeyMaterial E L opts) =
        map ExistsSync (take n (filter (\<lambda>p. p \<noteq> []) (key_candidates E (keyFile opts)))) @ []"
      by (simp add: resolveKeyMaterial_def findKeyPath_def)
    then show ?thesis by blast
  next
    case (Some p)
    obtain res reads where rd: "readKeyFile E L p = (res, reads)"
      by (cases "readKeyFile E L p")
    then have shape: "reads = [] \<or> (\<exists>q. reads = [ReadFileSync q])"
      by (auto simp: readKeyFile_def split: sum.splits option.splits)
    from None f n Some rd have "snd (resolveKeyMaterial E L opts) =
        map ExistsSync (take n (filter (\<lambda>p. p \<noteq> []) (key_candidates E (keyFile opts)))) @ reads"
      by (simp add: resolveKeyMaterial_def findKeyPath_def)
    with shape show ?thesis by blast
  qed
qed

lemma buildAuthorizationHeader_unresolved:
  "fst (resolveKeyMaterial E L opts) = Inl err \<Longrightarrow>
     buildAuthorizationHeader E L ctx opts = (Inl err, snd (resolveKeyMaterial E L opts))"
  by (cases "resolveKeyMaterial E L opts") (auto simp: buildAuthorizationHeader_def)

section \<open>Claims\<close>

text \<open>
  C1. For every AuthContext whose challenge has at least two characters and every key of
  exactly 32 or 64 bytes that key resolution yields, buildAuthorizationHeader returns
  \<open>Basic android|\<close>, the first character of the challenge, \<open>|\<close> and the base64 of the
  combined signed message: the 64-byte signature followed by the 64-byte SHA-512 digest of
  the decoded rest of the challenge followed by the UTF-8 bytes of
  \<open>| telescopeId | bootCount\<close>. Decoding the base64 gives the blob back, and it has 128
  bytes for the seed form and for the expanded form of the key.
\<close>

theorem buildAuthorizationHeader_format:
  "crypto_ok L \<Longrightarrow> fst (resolveKeyMaterial E L opts) = Inr key \<Longrightarrow> 2 \<le> length (challenge ctx) \<Longrightarrow>
   length key = 32 \<or> length key = 64 \<Longrightarrow>
     fst (buildAuthorizationHeader E L ctx opts) =
        Inr (''Basic android|'' @ [challenge ctx ! 0] @ ''|'' @ base64_encode (signed_message L ctx key))
     \<and> length (sign_detached L (signed_digest L ctx) (expanded_key L key)) = 64
     \<and> length (signed_digest L ctx) = 64
     \<and> base64_decode_std (base64_encode (signed_message L ctx key)) = signed_message L ctx key
     \<and> length (signed_message L ctx key) = 128"
proof -
  assume ok: "crypto_ok L" and key: "fst (resolveKeyMaterial E L opts) = Inr key"
    and ch: "2 \<le> length (challenge ctx)" and len: "length key = 32 \<or> length key = 64"
  have payload: "buildPayload L ctx =
      Inr (base64_decode L (drop 1 (challenge ctx))
           @ utf8_encode (''|'' @ telescopeId ctx @ ''|'' @ boot_count_text (bootCount ctx)))"
    using ch by (auto simp: buildPayload_def Let_def)
  have sign: "signDigest L (signed_digest L ctx) key = Inr (signed_message L ctx key)"
    using len signDigest_64[OF ok] signDigest_32[OF ok]
    by (auto simp: expanded_key_def signed_message_def)
  have lens: "length (sign_detached L (signed_digest L ctx) (expanded_key L key)) = 64"
      "length (signed_digest L ctx) = 64"
    using ok by (simp_all add: crypto_ok_def signed_digest_def)
  have "fst (buildAuthorizationHeader E L ctx opts) =
        Inr (''Basic android|'' @ [challenge ctx ! 0] @ ''|'' @ base64_encode (signed_message L ctx key))"
    using sign by (simp add: buildAuthorizationHeader_resolved[OF key] payload signed_digest_def)
  with lens show ?thesis by (simp add: base64_roundtrip signed_message_def)
qed

theorem buildAuthorizationHeader_format_witness:
  "fst (buildAuthorizationHeader test_env test_crypto test_context (given_key (replicate 64 1))) =
     Inr (''Basic android|A|'' @ base64_encode (replicate 64 64 @ replicate 64 11))
   \<and> fst (buildAuthorizationHeader test_env test_crypto test_context (given_key (replicate 32 3))) =
     Inr (''Basic android|A|'' @ base64_encode (replicate 64 64 @ replicate 64 11))
   \<and> length (base64_decode_std (base64_encode (replicate 64 64 @ replicate 64 11))) = 128
   \<and> length (base64_encode (replicate 64 64 @ replicate 64 11)) = 172"
proof -
  have digest: "signed_digest test_crypto test_context = replicate 64 11"
    by code_simp
  have msg: "signed_message test_crypto test_context (replicate 64 1) = replicate 64 64 @ replicate 64 11"
      "signed_message test_crypto test_context (replicate 32 3) = replicate 64 64 @ replicate 64 11"
    by (simp_all add: signed_message_def digest) (simp_all add: test_crypto_def expanded_key_def)
  have k64: "fst (resolveKeyMaterial test_env test_crypto (given_key (replicate 64 1))) = Inr (replicate 64 1)"
    and k32: "fst (resolveKeyMaterial test_env test_crypto (given_key (replicate 32 3))) = Inr (replicate 32 3)"
    by (simp_all add: given_key_def resolveKeyMaterial_def key_bytes_def)
  have ch: "2 \<le> length (challenge test_context)"
    by (simp add: test_context_def)
  have c0: "[challenge test_context ! 0] = ''A''"
    by (simp add: test_context_def)
  have l64: "length (replicate 64 (1::byte)) = 32 \<or> length (replicate 64 (1::byte)) = 64"
    and l32: "length (replicate 32 (3::byte)) = 32 \<or> length (replicate 32 (3::byte)) = 64"
    by simp_all
  from buildAuthorizationHeader_format [OF test_crypto_ok k64 ch l64]
    buildAuthorizationHeader_format [OF test_crypto_ok k32 ch l32]
  show ?thesis
    by (simp add: msg c0 base64_encode_length)
qed




text \<open>
  C3 (as amended). For every response, downloadImage returns the body bytes unchanged when
  the status is successful; when it is not, it returns them if and only if the response
  declares an \<open>image/*\<close> content type, or the body has at least four bytes and begins
  with one of the image signatures (JPEG, PNG, BMP, GIF87a or GIF89a, either TIFF byte
  order, RIFF with WEBP at offset 8); otherwise it fails with the HTTP error of that
  status. A status-500 response that is the PNG signature is returned unchanged, and a
  status-500 plain-text body fails.
\<close>

theorem downloadImage_tolerant:
  "downloadImage_fetch P fetchImpl c w urlOrPath opts = (Inr resp, c', w') \<Longrightarrow>
     downloadImage P fetchImpl c w urlOrPath opts =
       (if ok resp then Inr (body resp)
        else if declares_image (contentType resp)
                \<or> (4 \<le> length (body resp) \<and> matches_image_signature (body resp))
             then Inr (body resp)
             else Inl (HttpError (status resp) (statusText resp) []),
        c', w')"
  by (simp add: downloadImage_def downloadImage_finish_def looksLikeImage_iff)

theorem downloadImage_tolerant_witness:
  "fst (downloadImage test_platform (fetch_always png_500) cached_client test_world ''/image''
          no_download_options) = Inr png_signature
   \<and> fst (downloadImage test_platform (fetch_always (text_response 500 ''Internal Server Error'' ''no''))
          cached_client test_world ''/image'' no_download_options) =
       Inl (HttpError 500 ''Internal Server Error'' [])"
proof -
  have fetched: "\<And>resp. downloadImage_fetch test_platform (fetch_always resp) cached_client test_world
      ''/image'' no_download_options =
     (Inr resp, cached_client,
      test_world\<lparr>calls := [(''http://example:8082/v1/image'',
         \<lparr>fi_method = ''GET'', fi_headers = [], fi_body = JUndefined\<rparr>)]\<rparr>)"
    by (simp add: downloadImage_fetch_def resolve_base_def cached_client_def test_client_def
        test_world_def test_platform_def plain_url_def request_url_def strip_trailing_slashes_def
        strip_leading_slash_def buildQuery_def no_download_options_def with_authorization_def
        fetchWithTimeout_def fetch_always_def url_toString_def startsWith_def)
  show ?thesis
    using downloadImage_tolerant [OF fetched [of png_500]]
      downloadImage_tolerant [OF fetched [of "text_response 500 ''Internal Server Error'' ''no''"]]
    by (simp add: png_500_def text_response_def ok_def declares_image_def matches_image_signature_def
        startsWith_def toLowerCase_def lower_char_def png_signature_def utf8_encode_def utf8_char_def)
qed

text \<open>
  The claim as stated has no length condition. The two-byte body \<open>BM\<close> begins with the
  BMP signature, and a status-500 plain-text response carrying it fails.
\<close>

theorem downloadImage_short_signature:
  "matches_image_signature (utf8_encode ''BM'')
   \<and> fst (downloadImage test_platform (fetch_always (text_response 500 ''Internal Server Error'' ''BM''))
          cached_client test_world ''/image'' no_download_options) =
       Inl (HttpError 500 ''Internal Server Error'' [])"
  by (simp add: downloadImage_def downloadImage_finish_def downloadImage_fetch_def resolve_base_def
      cached_client_def test_client_def test_world_def test_platform_def plain_url_def request_url_def
      strip_trailing_slashes_def strip_leading_slash_def buildQuery_def no_download_options_def
      with_authorization_def fetchWithTimeout_def fetch_always_def url_toString_def startsWith_def
      text_response_def ok_def looksLikeImage_def header_or_empty_def toLowerCase_def lower_char_def
      matches_image_signature_def utf8_encode_def utf8_char_def)

text \<open>
  C4 (as amended). buildAuthorizationHeader resolves the key before it looks at the
  challenge. When key resolution fails, it fails with the error of the resolution,
  whatever the challenge. When resolution yields a key, it fails with InvalidChallenge for
  every challenge shorter than two characters, and for every longer challenge with
  UnsupportedKeyLength for every key that has neither 32 nor 64 bytes. It fails
  synchronously and retries nothing: its file-system calls are those of the one key
  resolution, which are an existsSync for each of the first key-file candidates, in their
  order and once each, then at most one readFileSync; there is none when the key is
  passed as key material.
\<close>

theorem buildAuthorizationHeader_failures:
  "(\<forall>err. fst (resolveKeyMaterial E L opts) = Inl err \<longrightarrow>
       fst (buildAuthorizationHeader E L ctx opts) = Inl err)
   \<and> (\<forall>key. fst (resolveKeyMaterial E L opts) = Inr key \<and> length (challenge ctx) < 2 \<longrightarrow>
       fst (buildAuthorizationHeader E L ctx opts) = Inl InvalidChallenge)
   \<and> (\<forall>key. fst (resolveKeyMaterial E L opts) = Inr key \<and> 2 \<le> length (challenge ctx)
          \<and> length key \<noteq> 32 \<and> length key \<noteq> 64 \<longrightarrow>
       fst (buildAuthorizationHeader E L ctx opts) = Inl (UnsupportedKeyLength (length key)))
   \<and> snd (buildAuthorizationHeader E L ctx opts) = snd (resolveKeyMaterial E L opts)
   \<and> (\<exists>n reads. snd (buildAuthorizationHeader E L ctx opts) =
          map ExistsSync (take n (filter (\<lambda>p. p \<noteq> []) (key_candidates E (keyFile opts)))) @ reads
        \<and> (reads = [] \<or> (\<exists>p. reads = [ReadFileSync p])))
   \<and> (\<forall>km. keyMaterial opts = Some km \<longrightarrow>
         fst (resolveKeyMaterial E L opts) = Inr (key_bytes L km)
         \<and> snd (buildAuthorizationHeader E L ctx opts) = [])"
proof -
  have trace: "snd (buildAuthorizationHeader E L ctx opts) = snd (resolveKeyMaterial E L opts)"
    by (cases "fst (resolveKeyMaterial E L opts)")
      (simp_all add: buildAuthorizationHeader_unresolved buildAuthorizationHeader_resolved)
  have failed: "fst (buildAuthorizationHeader E L ctx opts) = Inl err"
    if "fst (resolveKeyMaterial E L opts) = Inl err" for err
    using that by (simp add: buildAuthorizationHeader_unresolved)
  have short: "fst (buildAuthorizationHeader E L ctx opts) = Inl InvalidChallenge"
    if "fst (resolveKeyMaterial E L opts) = Inr key" "length (challenge ctx) < 2" for key
    using that by (simp add: buildAuthorizationHeader_resolved buildPayload_def)
  have badkey: "fst (buildAuthorizationHeader E L ctx opts) = Inl (UnsupportedKeyLength (length key))"
    if "fst (resolveKeyMaterial E L opts) = Inr key" "2 \<le> length (challenge ctx)"
      "length key \<noteq> 32" "length key \<noteq> 64" for key
    using that
    by (auto simp: buildAuthorizationHeader_resolved buildPayload_def signDigest_other Let_def)
  have given: "fst (resolveKeyMaterial E L opts) = Inr (key_bytes L km)
      \<and> snd (buildAuthorizationHeader E L ctx opts) = []"
    if "keyMaterial opts = Some km" for km
    using that trace by (simp add: resolveKeyMaterial_given)
  from failed short badkey trace given resolveKeyMaterial_trace[of E L opts]
  show ?thesis by (simp only: trace) blast
qed

theorem buildAuthorizationHeader_failures_witness:
  "buildAuthorizationHeader test_env test_crypto (test_context\<lparr>challenge := ''A''\<rparr>)
      (given_key (replicate 64 1)) = (Inl InvalidChallenge, [])
   \<and> buildAuthorizationHeader test_env test_crypto test_context (given_key (replicate 5 1)) =
      (Inl (UnsupportedKeyLength 5), [])
   \<and> fst (buildAuthorizationHeader test_env test_crypto test_context explicit_key_file) =
      Inl KeyMaterialNotFound"
proof -
  have k64: "fst (resolveKeyMaterial test_env test_crypto (given_key (replicate 64 1))) = Inr (replicate 64 1)"
    and k5: "fst (resolveKeyMaterial test_env test_crypto (given_key (replicate 5 1))) = Inr (replicate 5 1)"
    by (simp_all add: given_key_def resolveKeyMaterial_def key_bytes_def)
  have m64: "keyMaterial (given_key (replicate 64 1)) = Some (KeyBytes (replicate 64 1))"
    and m5: "keyMaterial (given_key (replicate 5 1)) = Some (KeyBytes (replicate 5 1))"
    by (simp_all add: given_key_def)
  have none: "fst (resolveKeyMaterial test_env test_crypto explicit_key_file) = Inl KeyMaterialNotFound"
    by code_simp
  have short: "length (challenge (test_context\<lparr>challenge := ''A''\<rparr>)) < 2"
    and long: "2 \<le> length (challenge test_context)"
    and bad: "length (replicate 5 (1::byte)) \<noteq> 32 \<and> length (replicate 5 (1::byte)) \<noteq> 64"
    by (simp_all add: test_context_def)
  note t64 = buildAuthorizationHeader_failures
      [of test_env test_crypto "given_key (replicate 64 1)" "test_context\<lparr>challenge := ''A''\<rparr>"]
  note t5 = buildAuthorizationHeader_failures
      [of test_env test_crypto "given_key (replicate 5 1)" test_context]
  note tnone = buildAuthorizationHeader_failures
      [of test_env test_crypto explicit_key_file test_context]
  have "fst (buildAuthorizationHeader test_env test_crypto (test_context\<lparr>challenge := ''A''\<rparr>)
      (given_key (replicate 64 1))) = Inl InvalidChallenge"
    using t64 k64 short by blast
  moreover have "snd (buildAuthorizationHeader test_env test_crypto (test_context\<lparr>challenge := ''A''\<rparr>)
      (given_key (replicate 64 1))) = []"
    using t64 m64 by blast
  moreover have "fst (buildAuthorizationHeader test_env test_crypto test_context
      (given_key (replicate 5 1))) = Inl (UnsupportedKeyLength (length (replicate 5 (1::byte))))"
    using t5 k5 long bad by blast
  moreover have "snd (buildAuthorizationHeader test_env test_crypto test_context
      (given_key (replicate 5 1))) = []"
    using t5 m5 by blast
  moreover have "fst (buildAuthorizationHeader test_env test_crypto test_context explicit_key_file) =
      Inl KeyMaterialNotFound"
    using tnone none by blast
  ultimately show ?thesis
    by (simp add: prod_eq_iff)
qed

text \<open>
  The claim as stated has both failures happen with no I/O. With no key material passed
  and a key file \<open>.auth_key\<close> in the working directory, the one-character challenge
  \<open>A\<close> fails with InvalidChallenge, and a longer challenge with the file's 3-byte key
  fails with UnsupportedKeyLength, after an existsSync and a readFileSync of the key file;
  with no key file at all, the challenge \<open>A\<close> fails with KeyMaterialNotFound after
  three existsSync calls.
\<close>

theorem buildAuthorizationHeader_reads_key_file:
  "buildAuthorizationHeader key_env test_crypto (test_context\<lparr>challenge := ''A''\<rparr>) no_key =
     (Inl InvalidChallenge,
      [ExistsSync ''/home/user/project/.auth_key'', ReadFileSync ''/home/user/project/.auth_key''])
   \<and> buildAuthorizationHeader key_env test_crypto test_context no_key =
     (Inl (UnsupportedKeyLength 3),
      [ExistsSync ''/home/user/project/.auth_key'', ReadFileSync ''/home/user/project/.auth_key''])
   \<and> buildAuthorizationHeader test_env test_crypto (test_context\<lparr>challenge := ''A''\<rparr>) no_key =
     (Inl KeyMaterialNotFound,
      [ExistsSync ''/home/user/project/.auth_key'',
       ExistsSync ''/home/user/project/node_modules/vaonis/.auth_key'',
       ExistsSync ''/home/user/project/python/.auth_key''])"
  by code_simp

text \<open>
  C5 (as amended). For every ordered finite list of prefixes, detectBaseUrl probes, in the
  configured order, the candidates \<open>http://host:port + prefix + apiBasePath\<close> with their
  trailing slashes removed, each with a GET of \<open>candidate + /app/status\<close>; it returns
  (and caches) the first candidate whose probe has a successful status, having made
  exactly the probes up to that one, and fails with BaseUrlNotDetected, having probed
  every prefix, when none succeeds. A probe whose fetch is rejected counts as failed.
\<close>

theorem detectBaseUrl_first_success:
  "(prefixes c = ps @ p # rest
      \<and> (\<forall>k<length ps. \<not> probe_ok fetchImpl (calls w @ map (probe_call c) (take k ps)) c (ps ! k))
      \<and> probe_ok fetchImpl (calls w @ map (probe_call c) ps) c p
    \<longrightarrow> detectBaseUrl fetchImpl c w =
          (Inr (makeBaseUrl c p), c\<lparr>baseUrl := Some (makeBaseUrl c p)\<rparr>,
           w\<lparr>calls := calls w @ map (probe_call c) (ps @ [p])\<rparr>))
   \<and> ((\<forall>k<length (prefixes c).
          \<not> probe_ok fetchImpl (calls w @ map (probe_call c) (take k (prefixes c))) c (prefixes c ! k))
    \<longrightarrow> detectBaseUrl fetchImpl c w =
          (Inl BaseUrlNotDetected, c, w\<lparr>calls := calls w @ map (probe_call c) (prefixes c)\<rparr>))
   \<and> makeBaseUrl c p = strip_trailing_slashes
        (''http://'' @ host c @ '':'' @ nat_to_string (port c) @ p @ apiBasePath c)
   \<and> probe_call c p = (makeBaseUrl c p @ ''/app/status'',
        \<lparr>fi_method = ''GET'', fi_headers = [], fi_body = JUndefined\<rparr>)"
  by (auto simp: detectBaseUrl_def detect_loop_first_success detect_loop_none makeBaseUrl_def
      probe_call_def probe_init_def simp del: map_append)

theorem detectBaseUrl_first_success_witness:
  "detectBaseUrl fetch_stellina test_client test_world =
     (Inr ''http://example:8082/stellina/http/v1'',
      test_client\<lparr>baseUrl := Some ''http://example:8082/stellina/http/v1''\<rparr>,
      test_world\<lparr>calls := [probe_call test_client [], probe_call test_client ''/stellina/http'']\<rparr>)
   \<and> detectBaseUrl (fetch_always (text_response 404 ''Not Found'' ''no'')) test_client test_world =
     (Inl BaseUrlNotDetected, test_client,
      test_world\<lparr>calls := [probe_call test_client [], probe_call test_client ''/stellina/http'']\<rparr>)"
  using detectBaseUrl_first_success [of test_client "[[]]" "''/stellina/http''" "[]" fetch_stellina test_world]
    detectBaseUrl_first_success [of test_client "[]" "[]" "[''/stellina/http'']"
      "fetch_always (text_response 404 ''Not Found'' ''no'')" test_world]
  by (simp add: test_client_def test_world_def probe_ok_def probe_call_def probe_init_def
      makeBaseUrl_def strip_trailing_slashes_def nat_to_string.simps digit_char_def
      fetch_stellina_def fetch_always_def text_response_def ok_def startsWith_def less_Suc_eq)

text \<open>
  The claim as stated gives the candidate as the plain concatenation. With
  \<open>apiBasePath = /v1/\<close> the concatenation is \<open>http://example:8082/v1/\<close>, and
  detectBaseUrl returns \<open>http://example:8082/v1\<close>.
\<close>

theorem detectBaseUrl_trailing_slash:
  "fst (detectBaseUrl (fetch_always (text_response 200 ''OK'' ''ok''))
          (test_client\<lparr>apiBasePath := ''/v1/''\<rparr>) test_world) = Inr ''http://example:8082/v1''
   \<and> ''http://'' @ host (test_client\<lparr>apiBasePath := ''/v1/''\<rparr>) @ '':''
        @ nat_to_string (port (test_client\<lparr>apiBasePath := ''/v1/''\<rparr>))
        @ hd (prefixes (test_client\<lparr>apiBasePath := ''/v1/''\<rparr>))
        @ apiBasePath (test_client\<lparr>apiBasePath := ''/v1/''\<rparr>) = ''http://example:8082/v1/''"
  by (simp add: detectBaseUrl_def detect_loop.simps test_client_def test_world_def fetchWithTimeout_def
      makeBaseUrl_def strip_trailing_slashes_def nat_to_string.simps digit_char_def
      fetch_always_def text_response_def ok_def Let_def)

text \<open>
  C6. When the route catalog is available (cached, or loaded from its file), callOperation
  fails with UnknownOperation for every operationId the catalog does not map, leaving the
  list of fetch calls as it was, and for every operationId the catalog maps it is the call
  of request with the entry's method and path.
\<close>

theorem callOperation_catalog:
  "loadRoutes routesFile w = (Inr m, w') \<Longrightarrow>
     (map_get m opId = None \<longrightarrow>
        callOperation P fetchImpl routesFile c w opId opts = (Inl (UnknownOperation opId), c, w')
        \<and> calls w' = calls w)
     \<and> (\<forall>r. map_get m opId = Some r \<longrightarrow>
        callOperation P fetchImpl routesFile c w opId opts =
          request P fetchImpl c w' (route_method r) (route_path r) opts)"
  using loadRoutes_calls[of routesFile w "Inr m" w']
  by (simp add: callOperation_def)

theorem callOperation_catalog_witness:
  "callOperation test_platform (fetch_always (text_response 200 ''OK'' ''ok'')) test_routes
      cached_client test_world ''doesNotExist'' no_options =
     (Inl (UnknownOperation ''doesNotExist''), cached_client,
      \<lparr>calls = [], routesCache = Some [(''appGetStatus'',
         \<lparr>operationId = ''appGetStatus'', route_method = ''GET'', route_path = ''/app/status''\<rparr>)]\<rparr>)
   \<and> callOperation test_platform (fetch_always (text_response 200 ''OK'' ''ok'')) test_routes
      cached_client test_world ''appGetStatus'' no_options =
     request test_platform (fetch_always (text_response 200 ''OK'' ''ok'')) cached_client
      \<lparr>calls = [], routesCache = Some [(''appGetStatus'',
         \<lparr>operationId = ''appGetStatus'', route_method = ''GET'', route_path = ''/app/status''\<rparr>)]\<rparr>
      ''GET'' ''/app/status'' no_options"
  using callOperation_catalog [of test_routes test_world
      "[(''appGetStatus'', \<lparr>operationId = ''appGetStatus'', route_method = ''GET'', route_path = ''/app/status''\<rparr>)]"
      "\<lparr>calls = [], routesCache = Some [(''appGetStatus'',
         \<lparr>operationId = ''appGetStatus'', route_method = ''GET'', route_path = ''/app/status''\<rparr>)]\<rparr>"
      "''doesNotExist''" test_platform "fetch_always (text_response 200 ''OK'' ''ok'')" cached_client no_options]
    callOperation_catalog [of test_routes test_world
      "[(''appGetStatus'', \<lparr>operationId = ''appGetStatus'', route_method = ''GET'', route_path = ''/app/status''\<rparr>)]"
      "\<lparr>calls = [], routesCache = Some [(''appGetStatus'',
         \<lparr>operationId = ''appGetStatus'', route_method = ''GET'', route_path = ''/app/status''\<rparr>)]\<rparr>"
      "''appGetStatus''" test_platform "fetch_always (text_response 200 ''OK'' ''ok'')" cached_client no_options]
  by (simp add: loadRoutes_def test_routes_def test_world_def map_get_def Let_def)

text \<open>
  C7 (as amended). For every request whose response has a non-success status and whose
  body decodes (the content type is not JSON, or the body parses as JSON), request fails
  with the HTTP error built from the response's status and status text, and the error's
  message starts with \<open>HTTP\<close> and the decimal status. A text response of status 400
  gives the message \<open>HTTP 400 Bad Request bad\<close>.
\<close>

theorem request_http_error:
  "request_fetch P fetchImpl c w meth p opts = (Inr resp, c', w') \<Longrightarrow> \<not> ok resp \<Longrightarrow>
   (js_includes (header_or_empty (contentType resp)) ''application/json'' \<longrightarrow>
      jsonParse P (body resp) \<noteq> None) \<Longrightarrow>
   \<exists>msg. request P fetchImpl c w meth p opts =
            (Inl (HttpError (status resp) (statusText resp) msg), c', w')
         \<and> error_message (HttpError (status resp) (statusText resp) msg) =
              Some (http_error_message (status resp) (statusText resp) msg)
         \<and> startsWith (http_error_message (status resp) (statusText resp) msg)
              (''HTTP '' @ nat_to_string (status resp))"
  using http_message_prefix
  by (auto simp: request_def request_finish_def Let_def split: option.splits)

theorem request_http_error_witness:
  "request test_platform (fetch_always (text_response 400 ''Bad Request'' ''bad'')) cached_client
      test_world ''GET'' ''/app/status'' no_options =
     (Inl (HttpError 400 ''Bad Request'' ''bad''), cached_client,
      test_world\<lparr>calls := [(''http://example:8082/v1/app/status'',
         \<lparr>fi_method = ''GET'', fi_headers = [], fi_body = JUndefined\<rparr>)]\<rparr>)
   \<and> error_message (HttpError 400 ''Bad Request'' ''bad'') = Some ''HTTP 400 Bad Request bad''"
proof -
  have fetched: "request_fetch test_platform (fetch_always (text_response 400 ''Bad Request'' ''bad''))
      cached_client test_world ''GET'' ''/app/status'' no_options =
     (Inr (text_response 400 ''Bad Request'' ''bad''), cached_client,
      test_world\<lparr>calls := [(''http://example:8082/v1/app/status'',
         \<lparr>fi_method = ''GET'', fi_headers = [], fi_body = JUndefined\<rparr>)]\<rparr>)"
    by (simp add: request_fetch_def resolve_base_def cached_client_def test_client_def test_world_def
        test_platform_def plain_url_def request_url_def strip_trailing_slashes_def
        strip_leading_slash_def buildQuery_def no_options_def with_authorization_def
        fetchWithTimeout_def fetch_always_def url_toString_def)
  have not_ok: "\<not> ok (text_response 400 ''Bad Request'' ''bad'')"
    by (simp add: ok_def text_response_def)
  have decodes: "js_includes (header_or_empty (contentType (text_response 400 ''Bad Request'' ''bad'')))
      ''application/json'' \<longrightarrow>
      jsonParse test_platform (body (text_response 400 ''Bad Request'' ''bad'')) \<noteq> None"
    by (simp add: text_response_def header_or_empty_def startsWith_def)
  have decoded: "textDecode test_platform (body (text_response 400 ''Bad Request'' ''bad'')) = ''bad''"
    by (simp add: test_platform_def text_response_def ascii_decode_def utf8_encode_def utf8_char_def
        char_of_eq_iff)
  have msg: "error_message (HttpError 400 ''Bad Request'' ''bad'') = Some ''HTTP 400 Bad Request bad''"
    by (simp add: http_error_message_def js_trim_def js_whitespace_def nat_to_string.simps digit_char_def)
  have computed: "request_finish test_platform (text_response 400 ''Bad Request'' ''bad'') =
      Inl (HttpError 400 ''Bad Request'' ''bad'')"
    using decoded
    by (simp add: request_finish_def text_response_def header_or_empty_def startsWith_def ok_def)
  from request_http_error [OF fetched not_ok decodes] computed msg show ?thesis
    by (simp add: request_def fetched)
qed

text \<open>
  The claim as stated covers every response of non-success status. A response of status
  400 that declares \<open>application/json\<close> and has an empty body makes
  \<open>response.json()\<close> reject before the status is looked at.
\<close>

theorem request_malformed_json_error:
  "status bad_json_400 = 400 \<and> \<not> ok bad_json_400
   \<and> request test_platform (fetch_always bad_json_400) cached_client test_world
        ''GET'' ''/app/status'' no_options =
       (Inl JsonSyntaxError, cached_client,
        test_world\<lparr>calls := [(''http://example:8082/v1/app/status'',
           \<lparr>fi_method = ''GET'', fi_headers = [], fi_body = JUndefined\<rparr>)]\<rparr>)"
  by (simp add: request_def request_finish_def request_fetch_def resolve_base_def cached_client_def
      test_client_def test_world_def test_platform_def plain_url_def request_url_def
      strip_trailing_slashes_def strip_leading_slash_def buildQuery_def no_options_def
      with_authorization_def fetchWithTimeout_def fetch_always_def url_toString_def
      bad_json_400_def ok_def header_or_empty_def startsWith_def utf8_encode_def utf8_char_def)

text \<open>
  C8 (as amended). For every params object passed to request for which \<open>buildQuery\<close>
  returns, which are those whose conversions to strings all return, an array-valued entry
  is serialised as one query parameter per array element under the same name, in order,
  each carrying \<open>String(item)\<close>, neither joined with commas nor JSON-encoded: the pairs
  named \<open>key\<close> after \<open>buildQuery\<close> are those the URL already had followed by one
  pair per element. When the array is not empty, the serialised URL is the URL's prefix,
  a question mark, the pairs written \<open>name=value\<close> and joined with \<open>&\<close>, and the
  fragment, and separating the query at the \<open>&\<close> characters gives back one entry per
  pair; this is the URL that request fetches, when \<open>JSON.stringify\<close> of a JSON body does
  not throw. For params \<open>{a: 1, b: ["x", "y"]}\<close> on a URL without query pairs the
  entries are \<open>a=1\<close>, \<open>b=x\<close> and \<open>b=y\<close>. When \<open>String(item)\<close> throws for an
  item of an array, \<open>buildQuery\<close> throws, and request rejects with the error that
  \<open>buildQuery\<close> throws without a fetch call for the request.
\<close>

theorem buildQuery_array_repeated:
  "(\<forall>url'. distinct (map fst entries) \<and> (key, JArr items) \<in> set entries
        \<and> buildQuery url (Some entries) = Inr url' \<longrightarrow>
      (\<exists>strings. map jsToString items = map Inr strings
         \<and> named key (searchParams url') = named key (searchParams url) @ map (Pair key) strings)
      \<and> (items \<noteq> [] \<longrightarrow>
           url_toString url' = url_prefix url @ CHR ''?'' # sp_toString (searchParams url') @ url_fragment url
           \<and> query_entries url' = map serialize_pair (searchParams url')))
   \<and> (\<forall>item err. (key, JArr items) \<in> set entries \<and> item \<in> set items \<and> jsToString item = Inl err \<longrightarrow>
        (\<exists>err'. buildQuery url (Some entries) = Inl err'))
   \<and> (\<forall>base c' w' url0 err.
        resolve_base fetchImpl c w = (Inr base, c', w') \<and> newURL P (request_url base p) = Some url0
          \<and> buildQuery url0 (params opts) = Inl err \<longrightarrow>
        request P fetchImpl c w meth p opts = (Inl err, c', w'))
   \<and> (\<forall>base c' w' url0 url' sent.
        resolve_base fetchImpl c w = (Inr base, c', w') \<and> newURL P (request_url base p) = Some url0
          \<and> buildQuery url0 (params opts) = Inr url'
          \<and> (if jsonBody opts \<noteq> JUndefined then jsonStringify P (jsonBody opts)
              else Inr (req_body opts)) = Inr sent \<longrightarrow>
        (\<exists>hdrs. calls (snd (snd (request P fetchImpl c w meth p opts))) =
           calls w' @ [(url_toString url', \<lparr>fi_method = meth, fi_headers = hdrs, fi_body = sent\<rparr>)]))
   \<and> (searchParams url = [] \<longrightarrow>
        (\<exists>url'. buildQuery url (Some [(''a'', JNum (Decimal False 1 0)), (''b'', JArr [JStr ''x'', JStr ''y''])])
             = Inr url'
           \<and> searchParams url' = [(''a'', ''1''), (''b'', ''x''), (''b'', ''y'')]
           \<and> url_toString url' = url_prefix url @ ''?a=1&b=x&b=y'' @ url_fragment url
           \<and> query_entries url' = [''a=1'', ''b=x'', ''b=y'']))
   \<and> ((\<exists>url'. buildQuery url (Some entries) = Inr url') = (conversion_error entries = None))"
proof (intro conjI allI impI)
  fix url'
  assume a: "distinct (map fst entries) \<and> (key, JArr items) \<in> set entries
      \<and> buildQuery url (Some entries) = Inr url'"
  then have loop: "buildQuery_loop url entries = Inr url'"
    by (simp add: buildQuery_def)
  from a named_loop_present[OF _ _ loop, of key "JArr items"]
  obtain strings where s: "entry_strings (JArr items) = Inr strings"
    and n: "named key (searchParams url') = named key (entry_pairs (searchParams url) key (JArr items) strings)"
    by blast
  from s have "map jsToString items = map Inr strings"
    by (simp add: entry_strings_def item_strings_map)
  moreover from n have "named key (searchParams url') = named key (searchParams url) @ map (Pair key) strings"
    by (simp add: named_entry_pairs)
  ultimately show "\<exists>strings. map jsToString items = map Inr strings
         \<and> named key (searchParams url') = named key (searchParams url) @ map (Pair key) strings"
    by blast
  assume "items \<noteq> []"
  then have w: "writes (JArr items)" by (simp add: writes_def)
  from a have b: "buildQuery url (Some entries) = Inr url'" and m: "(key, JArr items) \<in> set entries"
    by simp_all
  show "url_toString url' = url_prefix url @ CHR ''?'' # sp_toString (searchParams url') @ url_fragment url"
    by (rule buildQuery_written(1)[OF b m w])
  show "query_entries url' = map serialize_pair (searchParams url')"
    by (rule buildQuery_written(2)[OF b m w])
next
  fix item err
  assume a: "(key, JArr items) \<in> set entries \<and> item \<in> set items \<and> jsToString item = Inl err"
  then have "\<exists>item \<in> set items. isl (jsToString item)" by (auto simp: isl_def)
  then have "\<exists>e. entry_strings (JArr items) = Inl e"
    using entry_strings_error[of "JArr items"] by simp
  with a have "\<exists>e \<in> set entries. \<exists>err. entry_strings (snd e) = Inl err" by force
  then obtain err' where "conversion_error entries = Some err'"
    using conversion_error_exists[of entries] by blast
  then show "\<exists>err'. buildQuery url (Some entries) = Inl err'"
    using buildQuery_error by blast
next
  fix base c' w' url0 err
  assume "resolve_base fetchImpl c w = (Inr base, c', w') \<and> newURL P (request_url base p) = Some url0
          \<and> buildQuery url0 (params opts) = Inl err"
  then show "request P fetchImpl c w meth p opts = (Inl err, c', w')"
    by (simp add: request_query_error)
next
  fix base c' w' url0 url' sent
  assume "resolve_base fetchImpl c w = (Inr base, c', w') \<and> newURL P (request_url base p) = Some url0
          \<and> buildQuery url0 (params opts) = Inr url'
          \<and> (if jsonBody opts \<noteq> JUndefined then jsonStringify P (jsonBody opts)
              else Inr (req_body opts)) = Inr sent"
  then show "\<exists>hdrs. calls (snd (snd (request P fetchImpl c w meth p opts))) =
           calls w' @ [(url_toString url', \<lparr>fi_method = meth, fi_headers = hdrs, fi_body = sent\<rparr>)]"
    using request_query_call by blast
next
  assume e: "searchParams url = []"
  let ?q = "[(''a'', ''1''), (''b'', ''x''), (''b'', ''y'')]"
  have one: "number_to_string (Decimal False 1 0) = ''1''"
    by code_simp
  have b: "buildQuery url (Some [(''a'', JNum (Decimal False 1 0)), (''b'', JArr [JStr ''x'', JStr ''y''])])
      = Inr (update_query url ?q)"
    using e by (simp add: buildQuery_def buildQuery_entry_def searchParams_set_def searchParams_append_def
        sp_set_def sp_append_def one del: number_to_string.simps One_nat_def)
  have ser: "sp_toString ?q = ''a=1&b=x&b=y''" "map serialize_pair ?q = [''a=1'', ''b=x'', ''b=y'']"
    by code_simp+
  have "url_toString (update_query url ?q) = url_prefix url @ ''?a=1&b=x&b=y'' @ url_fragment url"
    by (simp add: url_toString_update ser)
  moreover have "query_entries (update_query url ?q) = map serialize_pair ?q"
    by (rule query_entries_update) simp
  then have "query_entries (update_query url ?q) = [''a=1'', ''b=x'', ''b=y'']"
    by (simp only: ser)
  ultimately show "\<exists>url'. buildQuery url (Some [(''a'', JNum (Decimal False 1 0)), (''b'', JArr [JStr ''x'', JStr ''y''])])
             = Inr url'
           \<and> searchParams url' = [(''a'', ''1''), (''b'', ''x''), (''b'', ''y'')]
           \<and> url_toString url' = url_prefix url @ ''?a=1&b=x&b=y'' @ url_fragment url
           \<and> query_entries url' = [''a=1'', ''b=x'', ''b=y'']"
    using b by simp
next
  show "(\<exists>url'. buildQuery url (Some entries) = Inr url') = (conversion_error entries = None)"
    using buildQuery_error[of url entries] by (cases "buildQuery url (Some entries)") auto
qed

theorem buildQuery_array_repeated_witness:
  "(\<exists>url'. buildQuery example_url
        (Some [(''a'', JNum (Decimal False 1 0)), (''b'', JArr [JStr ''x'', JStr ''y''])]) = Inr url'
      \<and> named ''b'' (searchParams url') = [(''b'', ''x''), (''b'', ''y'')]
      \<and> url_toString url' = ''http://example:8082/v1/app/status?a=1&b=x&b=y''
      \<and> query_entries url' = [''a=1'', ''b=x'', ''b=y''])
   \<and> (\<exists>hdrs. calls (snd (snd (request test_platform ok_fetch cached_client test_world ''GET'' ''/app/status''
          (with_params [(''a'', JNum (Decimal False 1 0)), (''b'', JArr [JStr ''x'', JStr ''y''])])))) =
        [(''http://example:8082/v1/app/status?a=1&b=x&b=y'',
          \<lparr>fi_method = ''GET'', fi_headers = hdrs, fi_body = JUndefined\<rparr>)])
   \<and> (\<exists>err. buildQuery example_url (Some [(''b'', JArr [JStr ''x'', unprintable])]) = Inl err)
   \<and> request test_platform ok_fetch cached_client test_world ''GET'' ''/app/status''
        (with_params [(''b'', JArr [JStr ''x'', unprintable])]) =
      (Inl (TypeError ''Cannot convert object to primitive value''), cached_client, test_world)"
proof -
  let ?entries = "[(''a'', JNum (Decimal False 1 0)), (''b'', JArr [JStr ''x'', JStr ''y''])]"
  let ?throwing = "[(''b'', JArr [JStr ''x'', unprintable])]"
  let ?result = "\<lparr>url_prefix = ''http://example:8082/v1/app/status'', url_query = ''?a=1&b=x&b=y'',
      searchParams = [(''a'', ''1''), (''b'', ''x''), (''b'', ''y'')], url_fragment = []\<rparr>"
  note t = buildQuery_array_repeated
      [of ?entries "''b''" "[JStr ''x'', JStr ''y'']" example_url ok_fetch cached_client test_world
        test_platform "''/app/status''" "with_params ?entries" "''GET''"]
  have computed: "buildQuery example_url (Some ?entries) = Inr ?result"
    by code_simp
  have given: "distinct (map fst ?entries)" "(''b'', JArr [JStr ''x'', JStr ''y'']) \<in> set ?entries"
      "[JStr ''x'', JStr ''y''] \<noteq> []"
    by simp_all
  from t [THEN conjunct1] given computed obtain strings where
    s: "map jsToString [JStr ''x'', JStr ''y''] = map Inr strings"
    and n: "named ''b'' (searchParams ?result) = named ''b'' (searchParams example_url) @ map (Pair ''b'') strings"
    by blast
  from s have "strings = [''x'', ''y'']" by auto
  with n have pairs: "named ''b'' (searchParams ?result) = [(''b'', ''x''), (''b'', ''y'')]"
    by (simp add: example_url_def named_def)
  from t [THEN conjunct1] given computed have
    "url_toString ?result = url_prefix example_url @ CHR ''?'' # sp_toString (searchParams ?result)
        @ url_fragment example_url"
    and "query_entries ?result = map serialize_pair (searchParams ?result)"
    by blast+
  moreover have "sp_toString (searchParams ?result) = ''a=1&b=x&b=y''"
    "map serialize_pair (searchParams ?result) = [''a=1'', ''b=x'', ''b=y'']"
    by code_simp+
  ultimately have printed: "url_toString ?result = ''http://example:8082/v1/app/status?a=1&b=x&b=y''"
    and entries: "query_entries ?result = [''a=1'', ''b=x'', ''b=y'']"
    by (simp_all add: example_url_def)
  have base: "resolve_base ok_fetch cached_client test_world =
      (Inr ''http://example:8082/v1'', cached_client, test_world)"
    by (simp add: resolve_base_def cached_client_def)
  have url0: "newURL test_platform (request_url ''http://example:8082/v1'' ''/app/status'') = Some example_url"
    by (simp add: test_platform_def plain_url_def request_url_def strip_trailing_slashes_def
        strip_leading_slash_def example_url_def)
  have query: "buildQuery example_url (params (with_params ?entries)) = Inr ?result"
    using computed by (simp add: with_params_def no_options_def)
  have sent: "(if jsonBody (with_params ?entries) \<noteq> JUndefined
       then jsonStringify test_platform (jsonBody (with_params ?entries))
       else Inr (req_body (with_params ?entries))) = Inr JUndefined"
    by (simp add: with_params_def no_options_def)
  from t [THEN conjunct2, THEN conjunct2, THEN conjunct2, THEN conjunct1] base url0 query sent obtain hdrs where
    "calls (snd (snd (request test_platform ok_fetch cached_client test_world ''GET'' ''/app/status''
        (with_params ?entries)))) =
       calls test_world @ [(url_toString ?result,
          \<lparr>fi_method = ''GET'', fi_headers = hdrs, fi_body = JUndefined\<rparr>)]"
    by blast
  then have "calls (snd (snd (request test_platform ok_fetch cached_client test_world ''GET'' ''/app/status''
        (with_params ?entries)))) =
       [(''http://example:8082/v1/app/status?a=1&b=x&b=y'',
         \<lparr>fi_method = ''GET'', fi_headers = hdrs, fi_body = JUndefined\<rparr>)]"
    by (simp only: printed) (simp add: test_world_def)
  then have fetched: "\<exists>hdrs. calls (snd (snd (request test_platform ok_fetch cached_client test_world
        ''GET'' ''/app/status'' (with_params ?entries)))) =
       [(''http://example:8082/v1/app/status?a=1&b=x&b=y'',
         \<lparr>fi_method = ''GET'', fi_headers = hdrs, fi_body = JUndefined\<rparr>)]"
    by blast
  have "searchParams example_url = []"
    by (simp add: example_url_def)
  with t [THEN conjunct2, THEN conjunct2, THEN conjunct2, THEN conjunct2, THEN conjunct1] computed
  have listed: "searchParams ?result = [(''a'', ''1''), (''b'', ''x''), (''b'', ''y'')]"
    by auto
  note t' = buildQuery_array_repeated
      [of ?throwing "''b''" "[JStr ''x'', unprintable]" example_url ok_fetch cached_client test_world
        test_platform "''/app/status''" "with_params ?throwing" "''GET''"]
  have item: "(''b'', JArr [JStr ''x'', unprintable]) \<in> set ?throwing"
      "unprintable \<in> set [JStr ''x'', unprintable]"
      "jsToString unprintable = Inl (TypeError ''Cannot convert object to primitive value'')"
    by (simp_all add: unprintable_def)
  from t' [THEN conjunct2, THEN conjunct1] item
  have thrown: "\<exists>err. buildQuery example_url (Some ?throwing) = Inl err"
    by blast
  have "buildQuery example_url (params (with_params ?throwing)) =
      Inl (TypeError ''Cannot convert object to primitive value'')"
    by (simp add: with_params_def no_options_def buildQuery_error entry_strings_def unprintable_def)
  with t' [THEN conjunct2, THEN conjunct2, THEN conjunct1] base url0
  have rejected: "request test_platform ok_fetch cached_client test_world ''GET'' ''/app/status''
        (with_params ?throwing) =
      (Inl (TypeError ''Cannot convert object to primitive value''), cached_client, test_world)"
    by blast
  from computed pairs printed entries listed have
    "\<exists>url'. buildQuery example_url (Some ?entries) = Inr url'
      \<and> named ''b'' (searchParams url') = [(''b'', ''x''), (''b'', ''y'')]
      \<and> url_toString url' = ''http://example:8082/v1/app/status?a=1&b=x&b=y''
      \<and> query_entries url' = [''a=1'', ''b=x'', ''b=y'']"
    by blast
  with fetched thrown rejected show ?thesis
    by blast
qed

text \<open>
  The claim as stated speaks of every params object. For params \<open>{b: [{toString: 1}]}\<close>
  the conversion of the array's item throws a TypeError: \<open>buildQuery\<close> throws it, no
  query parameter is written, and request rejects with it without any fetch call.
\<close>

theorem request_array_item_throws:
  "buildQuery example_url (Some [(''b'', JArr [unprintable])]) =
     Inl (TypeError ''Cannot convert object to primitive value'')
   \<and> request test_platform ok_fetch cached_client test_world ''GET'' ''/app/status''
        (with_params [(''b'', JArr [unprintable])]) =
     (Inl (TypeError ''Cannot convert object to primitive value''), cached_client, test_world)
   \<and> calls test_world = []"
  by code_simp

text \<open>
  C9. For every command name and optional payload, sendCommand makes exactly one emit,
  under the event \<open>message\<close>, whose only argument is the array \<open>[name]\<close> when no payload
  is supplied and \<open>[name, payload]\<close> when one is, and it passes the acknowledgement
  callback to the emit exactly when one is supplied.
\<close>

theorem sendCommand_emits:
  "sendCommand socket command payload callback =
     socket @ [\<lparr>emit_event = ''message'',
                emit_args = [JArr (JStr command # (if payload = JUndefined then [] else [payload]))],
                emit_ack = callback\<rparr>]"
  by (cases callback) (simp_all add: sendCommand_def emit_def)

theorem sendCommand_emits_witness:
  "getStatus [] (Some (7::nat)) =
     [\<lparr>emit_event = ''message'', emit_args = [JArr [JStr ''getStatus'']], emit_ack = Some 7\<rparr>]
   \<and> setSystemTime ([] :: nat socket_emit list) (Decimal False 1700000000000 0) False =
     [\<lparr>emit_event = ''message'', emit_args = [JArr [JStr ''setSystemTime'', JNum (Decimal False 1700000000000 0)]],
       emit_ack = None\<rparr>]"
  using sendCommand_emits [of "[]" "''getStatus''" JUndefined "Some (7::nat)"]
    sendCommand_emits [of "[] :: nat socket_emit list" "''setSystemTime''" "JNum (Decimal False 1700000000000 0)" None]
  by (simp add: getStatus_def setSystemTime_def)

text \<open>
  C10 (as amended). For every params object passed to request or downloadImage for which
  \<open>buildQuery\<close> returns, an entry that is not an array and whose value is null or
  undefined adds nothing to the query (the pairs of its name are those the URL already
  had, so a name the URL did not have does not appear, and a URL whose params write
  nothing is returned as it was), and every other value that is not an array leaves
  exactly one pair of its name, carrying \<open>String(value)\<close>, in a query that is the
  pairs written \<open>name=value\<close> and joined with \<open>&\<close>. The URL is returned unchanged
  for no params. Query serialisation fails exactly when \<open>String\<close> throws for a value
  that is neither an array, null nor undefined, or for an item of an array, and it fails
  with the first such error in the order of the entries; request and downloadImage then
  reject with that error without a fetch call for the request. It never fails when every
  value is undefined, null, a boolean, a number, a string or an array of such values.
\<close>

theorem buildQuery_scalar_entries:
  "(\<forall>url'. distinct (map fst entries) \<and> (key, v) \<in> set entries \<and> \<not> isArray v
        \<and> buildQuery url (Some entries) = Inr url' \<longrightarrow>
      (v = JUndefined \<or> v = JNull \<longrightarrow>
         named key (searchParams url') = named key (searchParams url)
         \<and> (key \<notin> set (map fst (searchParams url)) \<longrightarrow> key \<notin> set (map fst (searchParams url'))))
      \<and> (v \<noteq> JUndefined \<and> v \<noteq> JNull \<longrightarrow>
         (\<exists>text. jsToString v = Inr text \<and> named key (searchParams url') = [(key, text)])
         \<and> url_toString url' = url_prefix url @ CHR ''?'' # sp_toString (searchParams url') @ url_fragment url
         \<and> query_entries url' = map serialize_pair (searchParams url')))
   \<and> (\<forall>url'. buildQuery url (Some entries) = Inr url' \<and> (\<forall>e \<in> set entries. \<not> writes (snd e)) \<longrightarrow>
        url' = url)
   \<and> buildQuery url None = Inr url
   \<and> (\<forall>err. (buildQuery url (Some entries) = Inl err) = (conversion_error entries = Some err))
   \<and> ((\<exists>err. buildQuery url (Some entries) = Inl err) =
        (\<exists>e \<in> set entries.
           if isArray (snd e) then \<exists>item \<in> set (array_items (snd e)). isl (jsToString item)
           else snd e \<noteq> JUndefined \<and> snd e \<noteq> JNull \<and> isl (jsToString (snd e))))
   \<and> (list_all (\<lambda>e. object_free (snd e)) entries \<longrightarrow> (\<exists>url'. buildQuery url (Some entries) = Inr url'))
   \<and> (\<forall>base c' w' url0 err.
        resolve_base fetchImpl c w = (Inr base, c', w') \<and> newURL P (request_url base p) = Some url0
          \<and> buildQuery url0 (params opts) = Inl err \<longrightarrow>
        request P fetchImpl c w meth p opts = (Inl err, c', w'))
   \<and> (\<forall>base c' w' url0 err.
        resolve_base fetchImpl c w = (Inr base, c', w')
          \<and> newURL P (if startsWith urlOrPath ''http://'' \<or> startsWith urlOrPath ''https://''
                       then urlOrPath else request_url base urlOrPath) = Some url0
          \<and> buildQuery url0 (dl_params dopts) = Inl err \<longrightarrow>
        downloadImage P fetchImpl c w urlOrPath dopts = (Inl err, c', w'))
   \<and> (\<forall>base c' w' url0 url' sent.
        resolve_base fetchImpl c w = (Inr base, c', w') \<and> newURL P (request_url base p) = Some url0
          \<and> buildQuery url0 (params opts) = Inr url'
          \<and> (if jsonBody opts \<noteq> JUndefined then jsonStringify P (jsonBody opts)
              else Inr (req_body opts)) = Inr sent \<longrightarrow>
        (\<exists>hdrs. calls (snd (snd (request P fetchImpl c w meth p opts))) =
           calls w' @ [(url_toString url', \<lparr>fi_method = meth, fi_headers = hdrs, fi_body = sent\<rparr>)]))
   \<and> (\<forall>base c' w' url0 url'.
        resolve_base fetchImpl c w = (Inr base, c', w')
          \<and> newURL P (if startsWith urlOrPath ''http://'' \<or> startsWith urlOrPath ''https://''
                       then urlOrPath else request_url base urlOrPath) = Some url0
          \<and> buildQuery url0 (dl_params dopts) = Inr url' \<longrightarrow>
        (\<exists>init. calls (snd (snd (downloadImage P fetchImpl c w urlOrPath dopts))) =
           calls w' @ [(url_toString url', init)]))"
proof (intro conjI allI impI)
  fix url'
  assume a: "distinct (map fst entries) \<and> (key, v) \<in> set entries \<and> \<not> isArray v
      \<and> buildQuery url (Some entries) = Inr url'"
  then have loop: "buildQuery_loop url entries = Inr url'"
    by (simp add: buildQuery_def)
  from a named_loop_present[OF _ _ loop, of key v]
  obtain strings where s: "entry_strings v = Inr strings"
    and n: "named key (searchParams url') = named key (entry_pairs (searchParams url) key v strings)"
    by blast
  have absent: "\<And>q. (key \<notin> set (map fst q)) = (named key q = [])"
    by (auto simp: named_def filter_empty_conv)
  {
    assume nothing: "v = JUndefined \<or> v = JNull"
    with s have "strings = []" by (auto simp: entry_strings_def)
    with a n show same: "named key (searchParams url') = named key (searchParams url)"
      by (simp add: named_entry_pairs)
    assume "key \<notin> set (map fst (searchParams url))"
    with same show "key \<notin> set (map fst (searchParams url'))"
      by (simp only: absent)
  }
  {
    assume some: "v \<noteq> JUndefined \<and> v \<noteq> JNull"
    with a s obtain str where t: "jsToString v = Inr str" "strings = [str]"
      by (auto simp: entry_strings_def split: sum.splits)
    with a n have "named key (searchParams url') = [(key, str)]"
      by (simp add: named_entry_pairs)
    with t show "\<exists>text. jsToString v = Inr text \<and> named key (searchParams url') = [(key, text)]"
      by blast
    from a some have w: "writes v" by (simp add: writes_def)
    from a have b: "buildQuery url (Some entries) = Inr url'" and m: "(key, v) \<in> set entries"
      by simp_all
    show "url_toString url' = url_prefix url @ CHR ''?'' # sp_toString (searchParams url') @ url_fragment url"
      by (rule buildQuery_written(1)[OF b m w])
    show "query_entries url' = map serialize_pair (searchParams url')"
      by (rule buildQuery_written(2)[OF b m w])
  }
next
  fix url'
  assume "buildQuery url (Some entries) = Inr url' \<and> (\<forall>e \<in> set entries. \<not> writes (snd e))"
  then show "url' = url"
    using buildQuery_unwritten by blast
next
  show "buildQuery url None = Inr url"
    by (simp add: buildQuery_def)
next
  fix err
  show "(buildQuery url (Some entries) = Inl err) = (conversion_error entries = Some err)"
    by (rule buildQuery_error)
next
  show "(\<exists>err. buildQuery url (Some entries) = Inl err) =
        (\<exists>e \<in> set entries.
           if isArray (snd e) then \<exists>item \<in> set (array_items (snd e)). isl (jsToString item)
           else snd e \<noteq> JUndefined \<and> snd e \<noteq> JNull \<and> isl (jsToString (snd e)))"
    by (simp only: buildQuery_error conversion_error_exists entry_strings_error)
next
  assume "list_all (\<lambda>e. object_free (snd e)) entries"
  then have "conversion_error entries = None"
    by (rule object_free_no_error)
  then show "\<exists>url'. buildQuery url (Some entries) = Inr url'"
    using buildQuery_loop_success by (simp add: buildQuery_def)
next
  fix base c' w' url0 err
  assume "resolve_base fetchImpl c w = (Inr base, c', w') \<and> newURL P (request_url base p) = Some url0
          \<and> buildQuery url0 (params opts) = Inl err"
  then show "request P fetchImpl c w meth p opts = (Inl err, c', w')"
    by (simp add: request_query_error)
next
  fix base c' w' url0 err
  assume "resolve_base fetchImpl c w = (Inr base, c', w')
          \<and> newURL P (if startsWith urlOrPath ''http://'' \<or> startsWith urlOrPath ''https://''
                       then urlOrPath else request_url base urlOrPath) = Some url0
          \<and> buildQuery url0 (dl_params dopts) = Inl err"
  then show "downloadImage P fetchImpl c w urlOrPath dopts = (Inl err, c', w')"
    using downloadImage_query_error by blast
next
  fix base c' w' url0 url' sent
  assume "resolve_base fetchImpl c w = (Inr base, c', w') \<and> newURL P (request_url base p) = Some url0
          \<and> buildQuery url0 (params opts) = Inr url'
          \<and> (if jsonBody opts \<noteq> JUndefined then jsonStringify P (jsonBody opts)
              else Inr (req_body opts)) = Inr sent"
  then show "\<exists>hdrs. calls (snd (snd (request P fetchImpl c w meth p opts))) =
           calls w' @ [(url_toString url', \<lparr>fi_method = meth, fi_headers = hdrs, fi_body = sent\<rparr>)]"
    using request_query_call by blast
next
  fix base c' w' url0 url'
  assume "resolve_base fetchImpl c w = (Inr base, c', w')
          \<and> newURL P (if startsWith urlOrPath ''http://'' \<or> startsWith urlOrPath ''https://''
                       then urlOrPath else request_url base urlOrPath) = Some url0
          \<and> buildQuery url0 (dl_params dopts) = Inr url'"
  then show "\<exists>init. calls (snd (snd (downloadImage P fetchImpl c w urlOrPath dopts))) =
           calls w' @ [(url_toString url', init)]"
    using downloadImage_query_call by blast
qed

theorem buildQuery_scalar_entries_witness:
  "(\<exists>url'. buildQuery example_url
        (Some [(''a'', JNum (Decimal False 1 0)), (''c'', JNull), (''d'', JBool True)]) = Inr url'
      \<and> named ''c'' (searchParams url') = []
      \<and> ''c'' \<notin> set (map fst (searchParams url'))
      \<and> named ''d'' (searchParams url') = [(''d'', ''true'')]
      \<and> url_toString url' = ''http://example:8082/v1/app/status?a=1&d=true''
      \<and> query_entries url' = [''a=1'', ''d=true''])
   \<and> buildQuery example_url (Some [(''c'', JNull), (''u'', JUndefined), (''e'', JArr [])]) = Inr example_url
   \<and> request test_platform ok_fetch cached_client test_world ''GET'' ''/app/status''
        (with_params [(''a'', JNum (Decimal False 1 0)), (''o'', unprintable)]) =
      (Inl (TypeError ''Cannot convert object to primitive value''), cached_client, test_world)
   \<and> downloadImage test_platform ok_fetch cached_client test_world ''/app/status''
        (download_params [(''o'', no_prototype)]) =
      (Inl (TypeError ''Cannot convert object to primitive value''), cached_client, test_world)
   \<and> (\<exists>init. calls (snd (snd (downloadImage test_platform ok_fetch cached_client test_world ''/app/status''
          (download_params [(''a'', JNum (Decimal False 1 0)), (''c'', JNull), (''d'', JBool True)])))) =
        [(''http://example:8082/v1/app/status?a=1&d=true'', init)])
   \<and> (\<exists>hdrs. calls (snd (snd (request test_platform ok_fetch cached_client test_world ''GET'' ''/app/status''
          (with_params [(''a'', JNum (Decimal False 1 0)), (''c'', JNull), (''d'', JBool True)])))) =
        [(''http://example:8082/v1/app/status?a=1&d=true'',
          \<lparr>fi_method = ''GET'', fi_headers = hdrs, fi_body = JUndefined\<rparr>)])"
proof -
  let ?entries = "[(''a'', JNum (Decimal False 1 0)), (''c'', JNull), (''d'', JBool True)]"
  let ?result = "\<lparr>url_prefix = ''http://example:8082/v1/app/status'', url_query = ''?a=1&d=true'',
      searchParams = [(''a'', ''1''), (''d'', ''true'')], url_fragment = []\<rparr>"
  let ?none = "[(''c'', JNull), (''u'', JUndefined), (''e'', JArr [])]"
  let ?bad = "[(''a'', JNum (Decimal False 1 0)), (''o'', unprintable)]"
  note tc = buildQuery_scalar_entries
      [of ?entries "''c''" JNull example_url ok_fetch cached_client test_world test_platform
        "''/app/status''" "with_params ?bad" "''GET''" "''/app/status''" "download_params [(''o'', no_prototype)]"]
  note td = buildQuery_scalar_entries
      [of ?entries "''d''" "JBool True" example_url ok_fetch cached_client test_world test_platform
        "''/app/status''" "with_params ?bad" "''GET''" "''/app/status''" "download_params [(''o'', no_prototype)]"]
  note tn = buildQuery_scalar_entries
      [of ?none "''c''" JNull example_url ok_fetch cached_client test_world test_platform
        "''/app/status''" "with_params ?bad" "''GET''" "''/app/status''" "download_params [(''o'', no_prototype)]"]
  have computed: "buildQuery example_url (Some ?entries) = Inr ?result"
    by code_simp
  have given: "distinct (map fst ?entries)" "(''c'', JNull) \<in> set ?entries" "(''d'', JBool True) \<in> set ?entries"
      "\<not> isArray JNull" "\<not> isArray (JBool True)" "''c'' \<notin> set (map fst (searchParams example_url))"
    by (simp_all add: example_url_def)
  from tc [THEN conjunct1] given computed have c: "named ''c'' (searchParams ?result) = named ''c'' (searchParams example_url)"
      "''c'' \<notin> set (map fst (searchParams ?result))"
    by blast+
  from c(1) have c0: "named ''c'' (searchParams ?result) = []"
    by (simp add: example_url_def named_def)
  from td [THEN conjunct1] given computed obtain str where
    "jsToString (JBool True) = Inr str" "named ''d'' (searchParams ?result) = [(''d'', str)]"
    by blast
  then have d: "named ''d'' (searchParams ?result) = [(''d'', ''true'')]"
    by auto
  from td [THEN conjunct1] given computed have
    "url_toString ?result = url_prefix example_url @ CHR ''?'' # sp_toString (searchParams ?result)
        @ url_fragment example_url"
    and "query_entries ?result = map serialize_pair (searchParams ?result)"
    by blast+
  moreover have "sp_toString (searchParams ?result) = ''a=1&d=true''"
    "map serialize_pair (searchParams ?result) = [''a=1'', ''d=true'']"
    by code_simp+
  ultimately have printed: "url_toString ?result = ''http://example:8082/v1/app/status?a=1&d=true''"
    and entries: "query_entries ?result = [''a=1'', ''d=true'']"
    by (simp_all add: example_url_def)
  have "list_all (\<lambda>e. object_free (snd e)) ?none"
    by simp
  with tn [THEN conjunct2, THEN conjunct2, THEN conjunct2, THEN conjunct2, THEN conjunct2, THEN conjunct1] obtain u where u: "buildQuery example_url (Some ?none) = Inr u"
    by blast
  moreover have "\<forall>e \<in> set ?none. \<not> writes (snd e)"
    by (simp add: writes_def)
  ultimately have "u = example_url"
    using tn [THEN conjunct2, THEN conjunct1] by blast
  with u have unchanged: "buildQuery example_url (Some ?none) = Inr example_url"
    by simp
  have base: "resolve_base ok_fetch cached_client test_world =
      (Inr ''http://example:8082/v1'', cached_client, test_world)"
    by (simp add: resolve_base_def cached_client_def)
  have url0: "newURL test_platform (request_url ''http://example:8082/v1'' ''/app/status'') = Some example_url"
    by (simp add: test_platform_def plain_url_def request_url_def strip_trailing_slashes_def
        strip_leading_slash_def example_url_def)
  have url1: "newURL test_platform
      (if startsWith ''/app/status'' ''http://'' \<or> startsWith ''/app/status'' ''https://''
       then ''/app/status'' else request_url ''http://example:8082/v1'' ''/app/status'') = Some example_url"
    using url0 by (simp add: startsWith_def)
  have q1: "buildQuery example_url (params (with_params ?bad)) =
      Inl (TypeError ''Cannot convert object to primitive value'')"
    by (simp add: with_params_def no_options_def buildQuery_error entry_strings_def unprintable_def)
  have q2: "buildQuery example_url (dl_params (download_params [(''o'', no_prototype)])) =
      Inl (TypeError ''Cannot convert object to primitive value'')"
    by (simp add: download_params_def no_download_options_def buildQuery_error entry_strings_def
        no_prototype_def)
  from tc [THEN conjunct2, THEN conjunct2, THEN conjunct2, THEN conjunct2, THEN conjunct2, THEN conjunct2, THEN conjunct1] base url0 q1 have r: "request test_platform ok_fetch cached_client test_world ''GET'' ''/app/status''
        (with_params ?bad) =
      (Inl (TypeError ''Cannot convert object to primitive value''), cached_client, test_world)"
    by blast
  from tc [THEN conjunct2, THEN conjunct2, THEN conjunct2, THEN conjunct2, THEN conjunct2, THEN conjunct2, THEN conjunct2, THEN conjunct1] base url1 q2 have dl: "downloadImage test_platform ok_fetch cached_client test_world ''/app/status''
        (download_params [(''o'', no_prototype)]) =
      (Inl (TypeError ''Cannot convert object to primitive value''), cached_client, test_world)"
    by blast
  note tf = buildQuery_scalar_entries
      [of ?entries "''d''" "JBool True" example_url ok_fetch cached_client test_world test_platform
        "''/app/status''" "with_params ?bad" "''GET''" "''/app/status''" "download_params ?entries"]
  have q3: "buildQuery example_url (dl_params (download_params ?entries)) = Inr ?result"
    using computed by (simp add: download_params_def no_download_options_def)
  from tf [THEN conjunct2, THEN conjunct2, THEN conjunct2, THEN conjunct2, THEN conjunct2, THEN conjunct2, THEN conjunct2, THEN conjunct2, THEN conjunct2] base url1 q3 obtain init where
    "calls (snd (snd (downloadImage test_platform ok_fetch cached_client test_world ''/app/status''
        (download_params ?entries)))) = calls test_world @ [(url_toString ?result, init)]"
    by blast
  then have fetched: "calls (snd (snd (downloadImage test_platform ok_fetch cached_client test_world
        ''/app/status'' (download_params ?entries)))) =
       [(''http://example:8082/v1/app/status?a=1&d=true'', init)]"
    by (simp only: printed) (simp add: test_world_def)
  then have fetched': "\<exists>init. calls (snd (snd (downloadImage test_platform ok_fetch cached_client
        test_world ''/app/status'' (download_params ?entries)))) =
       [(''http://example:8082/v1/app/status?a=1&d=true'', init)]"
    by blast
  note tr = buildQuery_scalar_entries
      [of ?entries "''d''" "JBool True" example_url ok_fetch cached_client test_world test_platform
        "''/app/status''" "with_params ?entries" "''GET''" "''/app/status''" "download_params ?entries"]
  have q4: "buildQuery example_url (params (with_params ?entries)) = Inr ?result"
    using computed by (simp add: with_params_def no_options_def)
  have sent: "(if jsonBody (with_params ?entries) \<noteq> JUndefined
       then jsonStringify test_platform (jsonBody (with_params ?entries))
       else Inr (req_body (with_params ?entries))) = Inr JUndefined"
    by (simp add: with_params_def no_options_def)
  from tr [THEN conjunct2, THEN conjunct2, THEN conjunct2, THEN conjunct2, THEN conjunct2, THEN conjunct2,
      THEN conjunct2, THEN conjunct2, THEN conjunct1] base url0 q4 sent
  obtain hdrs where
    "calls (snd (snd (request test_platform ok_fetch cached_client test_world ''GET'' ''/app/status''
        (with_params ?entries)))) =
       calls test_world @ [(url_toString ?result,
          \<lparr>fi_method = ''GET'', fi_headers = hdrs, fi_body = JUndefined\<rparr>)]"
    by blast
  then have "calls (snd (snd (request test_platform ok_fetch cached_client test_world ''GET'' ''/app/status''
        (with_params ?entries)))) =
       [(''http://example:8082/v1/app/status?a=1&d=true'',
         \<lparr>fi_method = ''GET'', fi_headers = hdrs, fi_body = JUndefined\<rparr>)]"
    by (simp only: printed) (simp add: test_world_def)
  then have requested: "\<exists>hdrs. calls (snd (snd (request test_platform ok_fetch cached_client test_world
        ''GET'' ''/app/status'' (with_params ?entries)))) =
       [(''http://example:8082/v1/app/status?a=1&d=true'',
         \<lparr>fi_method = ''GET'', fi_headers = hdrs, fi_body = JUndefined\<rparr>)]"
    by blast
  from computed c0 c(2) d printed entries have
    "\<exists>url'. buildQuery example_url (Some ?entries) = Inr url'
      \<and> named ''c'' (searchParams url') = []
      \<and> ''c'' \<notin> set (map fst (searchParams url'))
      \<and> named ''d'' (searchParams url') = [(''d'', ''true'')]
      \<and> url_toString url' = ''http://example:8082/v1/app/status?a=1&d=true''
      \<and> query_entries url' = [''a=1'', ''d=true'']"
    by blast
  with unchanged r dl fetched' requested show ?thesis
    by blast
qed

text \<open>
  The claim as stated says that query serialisation never fails on any entry. For params
  \<open>{a: 1, o: {toString: 1}}\<close>, and for params whose value \<open>o\<close> is an object without
  prototype, \<open>String(value)\<close> throws a TypeError: \<open>buildQuery\<close> throws it, and
  request and downloadImage reject with it without any fetch call.
\<close>

theorem buildQuery_value_throws:
  "buildQuery example_url (Some [(''a'', JNum (Decimal False 1 0)), (''o'', unprintable)]) =
     Inl (TypeError ''Cannot convert object to primitive value'')
   \<and> buildQuery example_url (Some [(''o'', no_prototype)]) =
     Inl (TypeError ''Cannot convert object to primitive value'')
   \<and> request test_platform ok_fetch cached_client test_world ''GET'' ''/app/status''
        (with_params [(''o'', unprintable)]) =
     (Inl (TypeError ''Cannot convert object to primitive value''), cached_client, test_world)
   \<and> downloadImage test_platform ok_fetch cached_client test_world ''/app/status''
        (download_params [(''o'', no_prototype)]) =
     (Inl (TypeError ''Cannot convert object to primitive value''), cached_client, test_world)
   \<and> calls test_world = []"
  by code_simp

end
